theory Spec2Isabelle
  imports Main
begin

section \<open>JavaScript values and helpers used by githubReader.js\<close>

text \<open>
  The module \<open>src/core/integrations/githubReader.js\<close> defines the class \<open>GitHubReader\<close>.
  Its methods are \<open>async\<close>; every remote call is awaited before the next one is issued,
  so each method is one sequential computation. A method is modelled as a function
  that returns \<open>Inl e\<close> when the JavaScript throws \<open>e\<close> (the promise is rejected with
  \<open>e\<close>) and \<open>Inr v\<close> when it returns \<open>v\<close>.
\<close>

text \<open>
  Dynamically typed values, for the duck-typed \<open>criteria\<close> and \<open>options\<close> objects and
  for the properties of the objects that the transport answers with.
\<close>

datatype jsval = Undefined | Null | Str string | Num int

text \<open>
  What a \<open>throw\<close> or a rejected promise carries: an Error object (a TypeError of the
  language, or the request error of the Octokit client), or any other value.
\<close>

datatype js_error = TypeError | RequestError | Thrown jsval

text \<open>Truthiness as tested by \<open>if (v)\<close> and \<open>v || d\<close>.\<close>

fun truthy :: "jsval \<Rightarrow> bool" where
  "truthy Undefined = False"
| "truthy Null = False"
| "truthy (Str s) = (s \<noteq> [])"
| "truthy (Num n) = (n \<noteq> 0)"

definition js_or :: "jsval \<Rightarrow> jsval \<Rightarrow> jsval" where
  "js_or a b = (if truthy a then a else b)"

text \<open>Decimal digits of a natural number, as Number.prototype.toString prints them.\<close>

definition digit_char :: "nat \<Rightarrow> char" where
  "digit_char d = ''0123456789'' ! (d mod 10)"

function digits :: "nat \<Rightarrow> string" where
  "digits n = (if n < 10 then [digit_char n] else digits (n div 10) @ [digit_char (n mod 10)])"
  by pat_completeness auto
termination
  by (relation "measure id") auto

declare digits.simps [simp del]

definition int_to_string :: "int \<Rightarrow> string" where
  "int_to_string n = (if n < 0 then CHR ''-'' # digits (nat (- n)) else digits (nat n))"

text \<open>
  Conversion to string inside a template literal \<open>`${v}`\<close>. Numbers are integers
  of magnitude below \<open>10^21\<close>, which JavaScript prints in plain decimal.
\<close>

fun template :: "jsval \<Rightarrow> string" where
  "template Undefined = ''undefined''"
| "template Null = ''null''"
| "template (Str s) = s"
| "template (Num n) = int_to_string n"

text \<open>
  \<open>String.prototype.toLowerCase\<close>, on the ASCII letters: a \<open>string\<close> here is a list of
  bytes, and the bytes of a non-ASCII character are left as they are.
\<close>

definition toLowerCase_char :: "char \<Rightarrow> char" where
  "toLowerCase_char c =
     (case map_of (zip ''ABCDEFGHIJKLMNOPQRSTUVWXYZ'' ''abcdefghijklmnopqrstuvwxyz'') c of
        Some d \<Rightarrow> d
      | None \<Rightarrow> c)"

definition toLowerCase :: "string \<Rightarrow> string" where
  "toLowerCase s = map toLowerCase_char s"

text \<open>\<open>String.prototype.includes\<close>: substring containment.\<close>

fun starts_with :: "string \<Rightarrow> string \<Rightarrow> bool" where
  "starts_with s [] = True"
| "starts_with [] (k # ks) = False"
| "starts_with (c # cs) (k # ks) = (c = k \<and> starts_with cs ks)"

fun str_includes :: "string \<Rightarrow> string \<Rightarrow> bool" where
  "str_includes [] k = (k = [])"
| "str_includes (c # cs) k = (starts_with (c # cs) k \<or> str_includes cs k)"

text \<open>\<open>Array.prototype.join\<close> on an array of strings.\<close>

fun join :: "string \<Rightarrow> string list \<Rightarrow> string" where
  "join sep [] = []"
| "join sep [x] = x"
| "join sep (x # y # ys) = x @ sep @ join sep (y # ys)"

text \<open>
  Reading a property \<open>obj[k]\<close> of a plain object created by a literal \<open>{...}\<close>. The
  object's own properties are an association list in insertion order; a key that is
  not an own property is looked up on \<open>Object.prototype\<close>, whose members (functions,
  and the prototype object itself under \<open>__proto__\<close>) are all truthy and carry none of
  the properties this module reads.
\<close>

definition object_prototype_keys :: "string list" where
  "object_prototype_keys =
     [''constructor'', ''__proto__'', ''hasOwnProperty'', ''isPrototypeOf'',
      ''propertyIsEnumerable'', ''toLocaleString'', ''toString'', ''valueOf'',
      ''__defineGetter__'', ''__defineSetter__'', ''__lookupGetter__'', ''__lookupSetter__'']"

datatype 'a lookup = Own 'a | Inherited | Absent

definition get_prop :: "(string \<times> 'a) list \<Rightarrow> string \<Rightarrow> 'a lookup" where
  "get_prop obj k =
     (case map_of obj k of
        Some v \<Rightarrow> Own v
      | None \<Rightarrow> if k \<in> set object_prototype_keys then Inherited else Absent)"

text \<open>\<open>try { body } catch (error) { handler }\<close>.\<close>

definition try_catch :: "js_error + 'a \<Rightarrow> (js_error \<Rightarrow> js_error + 'a) \<Rightarrow> js_error + 'a" where
  "try_catch body handler = (case body of Inl e \<Rightarrow> handler e | Inr v \<Rightarrow> Inr v)"

text \<open>
  The \<open>catch\<close> blocks of the public methods are
  \<open>catch (error) { console.error(..., error.message); return v; }\<close>. Reading
  \<open>error.message\<close> succeeds on an Error object and on every value but \<open>undefined\<close>
  and \<open>null\<close>; on these two the read itself throws a TypeError, which leaves the
  method. The message goes to the console, which the model does not record.
\<close>

definition nullish :: "js_error \<Rightarrow> bool" where
  "nullish error = (error = Thrown Undefined \<or> error = Thrown Null)"

definition error_message :: "js_error \<Rightarrow> js_error + unit" where
  "error_message error = (if nullish error then Inl TypeError else Inr ())"

definition log_and_return :: "'a \<Rightarrow> js_error \<Rightarrow> js_error + 'a" where
  "log_and_return v error = (case error_message error of Inl e \<Rightarrow> Inl e | Inr u \<Rightarrow> Inr v)"

text \<open>
  Library functions of the Node.js runtime that the module calls and that are not part
  of the repository are parameters of the model.
\<close>

record runtime =
  rt_extname :: "string \<Rightarrow> string"           \<comment> \<open>\<open>require('path').extname\<close>\<close>
  rt_base64 :: "string \<Rightarrow> string"            \<comment> \<open>\<open>Buffer.from(s, 'base64').toString('utf8')\<close>\<close>
  rt_toISOString :: "int \<Rightarrow> string"          \<comment> \<open>\<open>new Date(ms).toISOString()\<close>\<close>
  rt_Date_parse :: "string \<Rightarrow> int option"     \<comment> \<open>\<open>new Date(s).getTime()\<close>, \<open>None\<close> for NaN\<close>
  rt_now :: int                               \<comment> \<open>\<open>Date.now()\<close>\<close>

section \<open>listRepoFiles\<close>

text \<open>
  What \<open>octokit.rest.repos.getContent\<close> answers for a path of a fixed snapshot of a
  repository at a fixed ref: the request fails, or \<open>response.data\<close> is one entry, or an
  array of entries. Each entry carries the answer for its own \<open>path\<close>, which is
  requested only when the entry is a directory. The remote tree is finite and acyclic.
\<close>

record item =
  it_type :: string
  it_name :: string
  it_path :: string
  it_size :: int
  it_download_url :: "string option"

datatype contents = Fails js_error | Data_object entry | Data_array "entry list"
  and entry = Entry item contents

record file_entry =
  fe_name :: string
  fe_path :: string
  fe_size :: int
  fe_download_url :: "string option"
  fe_type :: string
  fe_extension :: string

text \<open>
  Line 3 binds the module constant \<open>path = require('path')\<close>, and line 25 declares a
  parameter of the same name, \<open>path = ''\<close>. Inside \<open>listRepoFiles\<close> the identifier
  \<open>path\<close> is therefore the string parameter. A string has no property \<open>extname\<close>, so
  \<open>path.extname\<close> is \<open>undefined\<close> and calling it throws a TypeError.
\<close>

datatype path_binding = PathModule | PathString string

definition member_extname :: "runtime \<Rightarrow> path_binding \<Rightarrow> (string \<Rightarrow> string) option" where
  "member_extname rt b = (case b of PathModule \<Rightarrow> Some (rt_extname rt) | PathString s \<Rightarrow> None)"

definition call_extname :: "runtime \<Rightarrow> path_binding \<Rightarrow> string \<Rightarrow> js_error + string" where
  "call_extname rt b name =
     (case member_extname rt b of None \<Rightarrow> Inl TypeError | Some f \<Rightarrow> Inr (f name))"

fun listRepoFiles ::
    "runtime \<Rightarrow> contents \<Rightarrow> string \<Rightarrow> string \<Rightarrow> string \<Rightarrow> string \<Rightarrow> string list
      \<Rightarrow> js_error + file_entry list"
  and listRepoFiles_loop ::
    "runtime \<Rightarrow> entry list \<Rightarrow> string \<Rightarrow> string \<Rightarrow> string \<Rightarrow> string \<Rightarrow> string list
      \<Rightarrow> file_entry list \<Rightarrow> js_error + file_entry list"
  where
  "listRepoFiles rt (Fails e) owner repo path ref extensions =
     try_catch (Inl e) (log_and_return [])"
| "listRepoFiles rt (Data_object en) owner repo path ref extensions =
     try_catch (listRepoFiles_loop rt [en] owner repo path ref extensions [])
       (log_and_return [])"
| "listRepoFiles rt (Data_array ens) owner repo path ref extensions =
     try_catch (listRepoFiles_loop rt ens owner repo path ref extensions [])
       (log_and_return [])"
| "listRepoFiles_loop rt [] owner repo path ref extensions files = Inr files"
| "listRepoFiles_loop rt (Entry item sub # rest) owner repo path ref extensions files =
     (if it_type item = ''file'' then
        (case call_extname rt (PathString path) (it_name item) of
           Inl e \<Rightarrow> Inl e
         | Inr ext \<Rightarrow>
             let fileExt = toLowerCase ext in
             if length extensions = 0 \<or> fileExt \<in> set extensions then
               listRepoFiles_loop rt rest owner repo path ref extensions
                 (files @ [\<lparr>fe_name = it_name item, fe_path = it_path item,
                            fe_size = it_size item, fe_download_url = it_download_url item,
                            fe_type = ''file'', fe_extension = fileExt\<rparr>])
             else listRepoFiles_loop rt rest owner repo path ref extensions files)
      else if it_type item = ''dir'' then
        (case listRepoFiles rt sub owner repo (it_path item) ref extensions of
           Inl e \<Rightarrow> Inl e
         | Inr subFiles \<Rightarrow>
             listRepoFiles_loop rt rest owner repo path ref extensions (files @ subFiles))
      else listRepoFiles_loop rt rest owner repo path ref extensions files)"

section \<open>The remote transport\<close>

text \<open>
  The Octokit client is the only collaborator. Each of its calls either throws a
  request error or answers with \<open>response.data\<close>. Within one run the answer may depend
  on the calls made so far, so every transport function also receives the list of
  earlier calls of the run, and every method returns the calls it has made.
\<close>

record search_options =
  so_q :: string
  so_sort :: jsval
  so_order :: jsval
  so_per_page :: jsval
  so_page :: jsval

datatype call =
    GetContent string string string string
  | SearchRepos search_options
  | GetByUsername string
  | ReposGet string string

text \<open>
  What \<open>getContent\<close> answers for the path that fetchRepoFile asks for: one entry (a
  file with its content and encoding, or an entry without content such as a
  submodule, whose missing properties are \<open>undefined\<close>), or, for the path of a
  directory, an array of entries.
\<close>

record file_payload =
  fp_name :: jsval
  fp_path :: jsval
  fp_size :: jsval
  fp_content :: jsval
  fp_encoding :: jsval
  fp_sha :: jsval
  fp_download_url :: jsval

datatype getContent_data = Data_entry file_payload | Data_listing "item list"

text \<open>
  Reading one of these properties of \<open>response.data\<close>: an array has none of them, so
  each read gives \<open>undefined\<close>.
\<close>

definition data_property :: "(file_payload \<Rightarrow> jsval) \<Rightarrow> getContent_data \<Rightarrow> jsval" where
  "data_property field d = (case d of Data_entry file \<Rightarrow> field file | Data_listing items \<Rightarrow> Undefined)"

record raw_repo =
  rr_id :: int
  rr_name :: string
  rr_full_name :: string
  rr_owner_login :: string
  rr_description :: "string option"
  rr_html_url :: string
  rr_clone_url :: string
  rr_language :: "string option"
  rr_stargazers_count :: int
  rr_forks_count :: int
  rr_open_issues_count :: int
  rr_topics :: "string list option"
  rr_created_at :: string
  rr_updated_at :: string
  rr_license :: "string option"    \<comment> \<open>the \<open>name\<close> of the license object, \<open>None\<close> for \<open>null\<close>\<close>

record account =
  acc_name :: "string option"
  acc_type :: string
  acc_bio :: "string option"
  acc_location :: "string option"
  acc_blog :: "string option"
  acc_html_url :: string
  acc_avatar_url :: string
  acc_public_repos :: int
  acc_followers :: int
  acc_following :: int
  acc_created_at :: string

record repo_data =
  rd_full_name :: string
  rd_description :: "string option"
  rd_language :: "string option"
  rd_stargazers_count :: int
  rd_forks_count :: int
  rd_open_issues_count :: int
  rd_topics :: "string list option"
  rd_license :: "string option"    \<comment> \<open>the \<open>name\<close> of the license object, \<open>None\<close> for \<open>null\<close>\<close>
  rd_homepage :: "string option"
  rd_created_at :: string
  rd_updated_at :: string

record transport =
  repos_getContent ::
    "call list \<Rightarrow> string \<Rightarrow> string \<Rightarrow> string \<Rightarrow> string \<Rightarrow> js_error + getContent_data"
  search_repos :: "call list \<Rightarrow> search_options \<Rightarrow> js_error + raw_repo list"
  users_getByUsername :: "call list \<Rightarrow> string \<Rightarrow> js_error + account"
  repos_get :: "call list \<Rightarrow> string \<Rightarrow> string \<Rightarrow> js_error + repo_data"

section \<open>fetchRepoFile\<close>

record file_content =
  fc_name :: jsval
  fc_path :: jsval
  fc_size :: jsval
  fc_content :: jsval
  fc_encoding :: jsval
  fc_sha :: jsval
  fc_download_url :: jsval

text \<open>
  Line 85: \<open>Buffer.from(file.content, 'base64').toString('utf8')\<close>. \<open>Buffer.from\<close> throws a
  TypeError when its first argument is not a string.
\<close>

definition Buffer_from_base64 :: "runtime \<Rightarrow> jsval \<Rightarrow> js_error + jsval" where
  "Buffer_from_base64 rt content =
     (case content of
        Str s \<Rightarrow> Inr (Str (rt_base64 rt s))
      | Undefined \<Rightarrow> Inl TypeError
      | Null \<Rightarrow> Inl TypeError
      | Num n \<Rightarrow> Inl TypeError)"

text \<open>The result \<open>None\<close> is the JavaScript \<open>null\<close>.\<close>

definition fetchRepoFile ::
    "runtime \<Rightarrow> transport \<Rightarrow> call list \<Rightarrow> string \<Rightarrow> string \<Rightarrow> string \<Rightarrow> string
      \<Rightarrow> (js_error + file_content option) \<times> call list" where
  "fetchRepoFile rt t tr owner repo filePath ref =
     (try_catch
        (case repos_getContent t tr owner repo filePath ref of
           Inl e \<Rightarrow> Inl e
         | Inr file \<Rightarrow>
             (case (if data_property fp_encoding file = Str ''base64''
                    then Buffer_from_base64 rt (data_property fp_content file)
                    else Inr (data_property fp_content file)) of
                Inl e \<Rightarrow> Inl e
              | Inr content \<Rightarrow>
                  Inr (Some \<lparr>fc_name = data_property fp_name file,
                             fc_path = data_property fp_path file,
                             fc_size = data_property fp_size file, fc_content = content,
                             fc_encoding = data_property fp_encoding file,
                             fc_sha = data_property fp_sha file,
                             fc_download_url = data_property fp_download_url file\<rparr>)))
        (log_and_return None),
      tr @ [GetContent owner repo filePath ref])"

section \<open>searchRepositories\<close>

record options =
  o_sort :: jsval
  o_order :: jsval
  o_per_page :: jsval
  o_page :: jsval

record repo_summary =
  rs_id :: int
  rs_name :: string
  rs_full_name :: string
  rs_owner :: string
  rs_description :: "string option"
  rs_url :: string
  rs_clone_url :: string
  rs_language :: "string option"
  rs_stars :: int
  rs_forks :: int
  rs_issues :: int
  rs_topics :: "string list"
  rs_created_at :: string
  rs_updated_at :: string
  rs_license :: "string option"

definition summary :: "raw_repo \<Rightarrow> repo_summary" where
  "summary repo =
     \<lparr>rs_id = rr_id repo, rs_name = rr_name repo, rs_full_name = rr_full_name repo,
      rs_owner = rr_owner_login repo, rs_description = rr_description repo,
      rs_url = rr_html_url repo, rs_clone_url = rr_clone_url repo,
      rs_language = rr_language repo, rs_stars = rr_stargazers_count repo,
      rs_forks = rr_forks_count repo, rs_issues = rr_open_issues_count repo,
      rs_topics = (case rr_topics repo of Some ts \<Rightarrow> ts | None \<Rightarrow> []),
      rs_created_at = rr_created_at repo, rs_updated_at = rr_updated_at repo,
      rs_license = (case rr_license repo of
                      Some n \<Rightarrow> if n \<noteq> [] then Some n else None
                    | None \<Rightarrow> None)\<rparr>"

text \<open>Lines 113 to 119.\<close>

definition searchOptions_of :: "string \<Rightarrow> options \<Rightarrow> search_options" where
  "searchOptions_of query opts =
     \<lparr>so_q = query,
      so_sort = js_or (o_sort opts) (Str ''stars''),
      so_order = js_or (o_order opts) (Str ''desc''),
      so_per_page = js_or (o_per_page opts) (Num 30),
      so_page = js_or (o_page opts) (Num 1)\<rparr>"

definition searchRepositories ::
    "transport \<Rightarrow> call list \<Rightarrow> string \<Rightarrow> options
      \<Rightarrow> (js_error + repo_summary list) \<times> call list" where
  "searchRepositories t tr query opts =
     (let searchOptions = searchOptions_of query opts
      in (try_catch
            (case search_repos t tr searchOptions of
               Inl e \<Rightarrow> Inl e
             | Inr items \<Rightarrow> Inr (map summary items))
            (log_and_return []),
          tr @ [SearchRepos searchOptions]))"

section \<open>findBusinesses\<close>

record criteria =
  c_industry :: jsval
  c_technology :: jsval
  c_location :: jsval
  c_company :: jsval
  c_minStars :: jsval
  c_limit :: jsval

text \<open>Lines 153 to 177: the query string built from the criteria.\<close>

definition findBusinesses_query :: "criteria \<Rightarrow> string" where
  \<open>findBusinesses_query c =
     (let queries = [];
          queries = (if truthy (c_industry c)
                     then queries @ [''topic:'' @ template (c_industry c)] else queries);
          queries = (if truthy (c_technology c)
                     then queries @ [''language:'' @ template (c_technology c)] else queries);
          queries = (if truthy (c_location c)
                     then queries @ [''location:"'' @ template (c_location c) @ ''"'']
                     else queries);
          queries = (if truthy (c_company c)
                     then queries @ [template (c_company c) @ '' in:name,description'']
                     else queries);
          queries = (if truthy (c_minStars c)
                     then queries @ [''stars:>='' @ template (c_minStars c)] else queries);
          queries = (if length queries = 0 then queries @ [''type:org''] else queries)
      in join '' '' queries)\<close>

record business_repo =
  br_name :: string
  br_description :: "string option"
  br_language :: "string option"
  br_stars :: int
  br_url :: string

text \<open>
  A profile of the owner map. The fields that the basic entry of lines 214 to 218
  leaves out are \<open>None\<close> there (\<open>undefined\<close> in JavaScript).
\<close>

record business =
  b_username :: string
  b_name :: "string option"
  b_type :: string
  b_description :: "string option"
  b_location :: "string option"
  b_website :: "string option"
  b_url :: "string option"
  b_avatar_url :: "string option"
  b_public_repos :: "int option"
  b_followers :: "int option"
  b_following :: "int option"
  b_created_at :: "string option"
  b_repositories :: "business_repo list"

definition business_of_account :: "string \<Rightarrow> account \<Rightarrow> business" where
  "business_of_account owner orgData =
     \<lparr>b_username = owner, b_name = acc_name orgData, b_type = acc_type orgData,
      b_description = acc_bio orgData, b_location = acc_location orgData,
      b_website = acc_blog orgData, b_url = Some (acc_html_url orgData),
      b_avatar_url = Some (acc_avatar_url orgData),
      b_public_repos = Some (acc_public_repos orgData),
      b_followers = Some (acc_followers orgData),
      b_following = Some (acc_following orgData),
      b_created_at = Some (acc_created_at orgData), b_repositories = []\<rparr>"

definition basic_business :: "string \<Rightarrow> business" where
  "basic_business owner =
     \<lparr>b_username = owner, b_name = None, b_type = ''unknown'', b_description = None,
      b_location = None, b_website = None, b_url = None, b_avatar_url = None,
      b_public_repos = None, b_followers = None, b_following = None,
      b_created_at = None, b_repositories = []\<rparr>"

definition condensed :: "repo_summary \<Rightarrow> business_repo" where
  "condensed repo =
     \<lparr>br_name = rs_name repo, br_description = rs_description repo,
      br_language = rs_language repo, br_stars = rs_stars repo, br_url = rs_url repo\<rparr>"

text \<open>\<open>businesses[owner].repositories.push(r)\<close> on an own property \<open>owner\<close>.\<close>

definition push_repository ::
    "(string \<times> business) list \<Rightarrow> string \<Rightarrow> business_repo \<Rightarrow> (string \<times> business) list" where
  "push_repository businesses owner r =
     map (\<lambda>kb. if fst kb = owner
               then (fst kb, (snd kb)\<lparr>b_repositories := b_repositories (snd kb) @ [r]\<rparr>)
               else kb) businesses"

text \<open>
  Lines 191 to 219: the profile of an owner that is not in the map yet. A failed
  lookup is caught and gives the basic entry; this \<open>catch\<close> block does not read the
  error.
\<close>

definition findBusinesses_profile :: "transport \<Rightarrow> call list \<Rightarrow> string \<Rightarrow> business" where
  "findBusinesses_profile t tr owner =
     (case users_getByUsername t tr owner of
        Inr orgData \<Rightarrow> business_of_account owner orgData
      | Inl error \<Rightarrow> basic_business owner)"

text \<open>
  Lines 187 to 229: the loop over the search results. The test \<open>!businesses[owner]\<close>
  holds only when the property is absent: an own profile is an object and an
  inherited member of \<open>Object.prototype\<close> is a function or an object, both truthy. An
  inherited member has no \<open>repositories\<close>, so the \<open>push\<close> of line 222 throws a TypeError,
  which leaves the loop for the \<open>catch\<close> block of line 241.
\<close>

fun findBusinesses_loop ::
    "transport \<Rightarrow> repo_summary list \<Rightarrow> (string \<times> business) list \<Rightarrow> call list
      \<Rightarrow> (js_error + (string \<times> business) list) \<times> call list" where
  "findBusinesses_loop t [] businesses tr = (Inr businesses, tr)"
| "findBusinesses_loop t (repo # rest) businesses tr =
     (let owner = rs_owner repo;
          created =
            (if get_prop businesses owner = Absent then
               (businesses @ [(owner, findBusinesses_profile t tr owner)],
                tr @ [GetByUsername owner])
             else (businesses, tr))
      in case get_prop (fst created) owner of
           Own b \<Rightarrow>
             findBusinesses_loop t rest
               (push_repository (fst created) owner (condensed repo)) (snd created)
         | Inherited \<Rightarrow> (Inl TypeError, snd created)
         | Absent \<Rightarrow> (Inl TypeError, snd created))"

text \<open>
  \<open>Object.values\<close> lists the own properties whose keys are array indices (canonical
  decimal numerals below \<open>2^32 - 1\<close>) first, in ascending numeric order, and then the
  other string keys in insertion order.
\<close>

definition is_digit :: "char \<Rightarrow> bool" where
  "is_digit c = (c \<in> set ''0123456789'')"

definition int_of_digits :: "string \<Rightarrow> int" where
  "int_of_digits k = foldl (\<lambda>n c. 10 * n + (of_char c - 48)) 0 k"

definition is_array_index :: "string \<Rightarrow> bool" where
  "is_array_index k =
     (k \<noteq> [] \<and> list_all is_digit k \<and> (k = ''0'' \<or> hd k \<noteq> CHR ''0'')
      \<and> int_of_digits k < 4294967295)"

definition Object_values :: "(string \<times> 'a) list \<Rightarrow> 'a list" where
  "Object_values obj =
     map snd (sort_key (\<lambda>kv. int_of_digits (fst kv)) (filter (\<lambda>kv. is_array_index (fst kv)) obj))
     @ map snd (filter (\<lambda>kv. \<not> is_array_index (fst kv)) obj)"

text \<open>Line 233: \<open>business.type === 'Organization' || business.public_repos > 5\<close>.\<close>

definition accepted :: "business \<Rightarrow> bool" where
  "accepted business =
     (b_type business = ''Organization''
      \<or> (case b_public_repos business of Some n \<Rightarrow> n > 5 | None \<Rightarrow> False))"

text \<open>Lines 235 and 236: \<open>repositories.reduce((sum, repo) => sum + repo.stars, 0)\<close>.\<close>

definition score :: "business \<Rightarrow> int" where
  "score a = foldl (\<lambda>sum repo. sum + br_stars repo) 0 (b_repositories a)"

definition compare_businesses :: "business \<Rightarrow> business \<Rightarrow> int" where
  "compare_businesses a b = (let aScore = score a; bScore = score b in bScore - aScore)"

text \<open>
  \<open>Array.prototype.sort\<close> with a comparator, which ECMAScript requires to be stable:
  an element moves in front of another one only when the comparator puts it strictly
  first. It is written here as an insertion sort.
\<close>

fun sort_insert :: "('a \<Rightarrow> 'a \<Rightarrow> int) \<Rightarrow> 'a \<Rightarrow> 'a list \<Rightarrow> 'a list" where
  "sort_insert cmp x [] = [x]"
| "sort_insert cmp x (y # ys) =
     (if cmp x y \<le> 0 then x # y # ys else y # sort_insert cmp x ys)"

definition js_sort :: "('a \<Rightarrow> 'a \<Rightarrow> int) \<Rightarrow> 'a list \<Rightarrow> 'a list" where
  "js_sort cmp xs = foldr (sort_insert cmp) xs []"

text \<open>Lines 177 to 182: the search.\<close>

definition findBusinesses_search ::
    "transport \<Rightarrow> criteria \<Rightarrow> (js_error + repo_summary list) \<times> call list" where
  "findBusinesses_search t c =
     (let query = findBusinesses_query c
      in searchRepositories t [] query
           \<lparr>o_sort = Str ''stars'', o_order = Str ''desc'',
            o_per_page = js_or (c_limit c) (Num 50), o_page = Undefined\<rparr>)"

text \<open>Lines 152 to 229: query, search and owner map.\<close>

definition findBusinesses_businesses ::
    "transport \<Rightarrow> criteria \<Rightarrow> (js_error + (string \<times> business) list) \<times> call list" where
  "findBusinesses_businesses t c =
     (case fst (findBusinesses_search t c) of
        Inl e \<Rightarrow> (Inl e, snd (findBusinesses_search t c))
      | Inr repositories \<Rightarrow>
          findBusinesses_loop t repositories [] (snd (findBusinesses_search t c)))"

text \<open>Lines 232 and 233: the profiles that pass the filter, before they are sorted.\<close>

definition findBusinesses_filtered ::
    "transport \<Rightarrow> criteria \<Rightarrow> (js_error + business list) \<times> call list" where
  "findBusinesses_filtered t c =
     (case fst (findBusinesses_businesses t c) of
        Inl e \<Rightarrow> (Inl e, snd (findBusinesses_businesses t c))
      | Inr businesses \<Rightarrow>
          (Inr (filter accepted (Object_values businesses)),
           snd (findBusinesses_businesses t c)))"

definition findBusinesses ::
    "transport \<Rightarrow> criteria \<Rightarrow> (js_error + business list) \<times> call list" where
  "findBusinesses t c =
     (try_catch
        (case fst (findBusinesses_filtered t c) of
           Inl e \<Rightarrow> Inl e
         | Inr candidates \<Rightarrow> Inr (js_sort compare_businesses candidates))
        (log_and_return []),
      snd (findBusinesses_filtered t c))"

section \<open>analyzeRepository\<close>

record indicators =
  hasLicense :: bool
  hasDescription :: bool
  hasWebsite :: bool
  highStars :: bool
  activeMaintenance :: bool
  hasTopics :: bool
  hasContributors :: bool

record repository_info =
  ri_name :: string
  ri_description :: "string option"
  ri_language :: "string option"
  ri_stars :: int
  ri_forks :: int
  ri_issues :: int
  ri_topics :: "string list option"
  ri_license :: "string option"
  ri_homepage :: "string option"
  ri_created_at :: string
  ri_updated_at :: string

record analysis =
  an_repository :: repository_info
  an_businessIndicators :: indicators
  an_keywordMatches :: "string list"
  an_businessScore :: int

definition businessKeywords :: "string list" where
  "businessKeywords =
     [''company'', ''business'', ''enterprise'', ''commercial'', ''product'',
      ''service'', ''solution'', ''platform'', ''api'', ''saas'', ''startup'',
      ''corporation'', ''inc'', ''llc'', ''ltd'', ''gmbh'']"

text \<open>\<open>!!v\<close> for a value that is \<open>null\<close> or a string.\<close>

definition truthy_string :: "string option \<Rightarrow> bool" where
  "truthy_string v = (case v of Some s \<Rightarrow> s \<noteq> [] | None \<Rightarrow> False)"

text \<open>
  Lines 281 to 289. The license is an object when it is not \<open>null\<close>, so \<open>!!license\<close>
  asks only whether it is there. \<open>hasTopics\<close> holds the truth value that
  \<open>filter(Boolean)\<close> sees in \<open>topics && topics.length > 0\<close>. A date that cannot be
  parsed is NaN, and every comparison with NaN is false.
\<close>

definition businessIndicators_of :: "runtime \<Rightarrow> repo_data \<Rightarrow> indicators" where
  "businessIndicators_of rt repoData =
     \<lparr>hasLicense = (rd_license repoData \<noteq> None),
      hasDescription = truthy_string (rd_description repoData),
      hasWebsite = truthy_string (rd_homepage repoData),
      highStars = (rd_stargazers_count repoData > 100),
      activeMaintenance =
        (case rt_Date_parse rt (rd_updated_at repoData) of
           Some updated \<Rightarrow> updated > rt_now rt - 90 * 24 * 60 * 60 * 1000
         | None \<Rightarrow> False),
      hasTopics = (case rd_topics repoData of Some ts \<Rightarrow> length ts > 0 | None \<Rightarrow> False),
      hasContributors = (rd_forks_count repoData > 10)\<rparr>"

definition indicator_values :: "indicators \<Rightarrow> bool list" where
  "indicator_values i =
     [hasLicense i, hasDescription i, hasWebsite i, highStars i, activeMaintenance i,
      hasTopics i, hasContributors i]"

text \<open>
  Lines 266 to 277: the loop over the other README names, which stands in the
  \<open>catch\<close> block of the \<open>try\<close> around the first \<open>fetchRepoFile\<close>. Neither this
  \<open>catch\<close> block nor the one inside the loop reads the error.
\<close>

fun readme_fallback ::
    "runtime \<Rightarrow> transport \<Rightarrow> call list \<Rightarrow> string \<Rightarrow> string \<Rightarrow> string list \<Rightarrow> jsval
      \<Rightarrow> jsval \<times> call list" where
  "readme_fallback rt t tr owner repo [] readmeContent = (readmeContent, tr)"
| "readme_fallback rt t tr owner repo (filename # rest) readmeContent =
     (case fetchRepoFile rt t tr owner repo filename ''main'' of
        (Inr (Some readme), tr') \<Rightarrow> (fc_content readme, tr')
      | (Inr None, tr') \<Rightarrow> readme_fallback rt t tr' owner repo rest readmeContent
      | (Inl e, tr') \<Rightarrow> readme_fallback rt t tr' owner repo rest readmeContent)"

text \<open>Lines 260 to 278.\<close>

definition analyzeRepository_readme ::
    "runtime \<Rightarrow> transport \<Rightarrow> call list \<Rightarrow> string \<Rightarrow> string \<Rightarrow> jsval \<times> call list" where
  "analyzeRepository_readme rt t tr owner repo =
     (case fetchRepoFile rt t tr owner repo ''README.md'' ''main'' of
        (Inr readme, tr') \<Rightarrow>
          ((case readme of Some file \<Rightarrow> fc_content file | None \<Rightarrow> Str []), tr')
      | (Inl error, tr') \<Rightarrow>
          readme_fallback rt t tr' owner repo [''README.rst'', ''README.txt'', ''README'']
            (Str []))"

text \<open>
  Lines 298 to 300. \<open>readmeContent.toLowerCase()\<close> throws a TypeError when the content
  is not a string.
\<close>

definition keywordMatches_of :: "jsval \<Rightarrow> js_error + string list" where
  "keywordMatches_of readmeContent =
     (case readmeContent of
        Str s \<Rightarrow>
          Inr (filter (\<lambda>keyword. str_includes (toLowerCase s) keyword) businessKeywords)
      | Undefined \<Rightarrow> Inl TypeError
      | Null \<Rightarrow> Inl TypeError
      | Num n \<Rightarrow> Inl TypeError)"

text \<open>The \<open>try\<close> block of lines 255 to 319.\<close>

definition analyzeRepository_body ::
    "runtime \<Rightarrow> transport \<Rightarrow> string \<Rightarrow> string \<Rightarrow> (js_error + analysis option) \<times> call list" where
  "analyzeRepository_body rt t owner repo =
     (case repos_get t [] owner repo of
        Inl e \<Rightarrow> (Inl e, [ReposGet owner repo])
      | Inr repoData \<Rightarrow>
          let readme = analyzeRepository_readme rt t [ReposGet owner repo] owner repo;
              readmeContent = fst readme;
              businessIndicators = businessIndicators_of rt repoData
          in (case keywordMatches_of readmeContent of
               Inl e \<Rightarrow> (Inl e, snd readme)
             | Inr keywordMatches \<Rightarrow>
                 (Inr (Some
                    \<lparr>an_repository =
                       \<lparr>ri_name = rd_full_name repoData,
                        ri_description = rd_description repoData,
                        ri_language = rd_language repoData,
                        ri_stars = rd_stargazers_count repoData,
                        ri_forks = rd_forks_count repoData,
                        ri_issues = rd_open_issues_count repoData,
                        ri_topics = rd_topics repoData,
                        ri_license = rd_license repoData,
                        ri_homepage = rd_homepage repoData,
                        ri_created_at = rd_created_at repoData,
                        ri_updated_at = rd_updated_at repoData\<rparr>,
                     an_businessIndicators = businessIndicators,
                     an_keywordMatches = keywordMatches,
                     an_businessScore =
                       int (length (filter (\<lambda>v. v) (indicator_values businessIndicators)))
                       + int (length keywordMatches)\<rparr>),
                  snd readme)))"

definition analyzeRepository ::
    "runtime \<Rightarrow> transport \<Rightarrow> string \<Rightarrow> string \<Rightarrow> (js_error + analysis option) \<times> call list" where
  "analyzeRepository rt t owner repo =
     (try_catch (fst (analyzeRepository_body rt t owner repo)) (log_and_return None),
      snd (analyzeRepository_body rt t owner repo))"

section \<open>getTrendingRepos\<close>

text \<open>
  Line 340: \<open>dateMap[since] || dateMap.weekly\<close>. An own property of \<open>dateMap\<close> is a Date
  object; an inherited member of \<open>Object.prototype\<close> is truthy as well, so it is what
  \<open>sinceDate\<close> becomes, and it has no method \<open>toISOString\<close>.
\<close>

datatype since_date = DateObject int | PrototypeMember

definition sinceDate_of :: "runtime \<Rightarrow> string \<Rightarrow> since_date" where
  "sinceDate_of rt since =
     (let dateMap =
            [(''daily'', rt_now rt - 24 * 60 * 60 * 1000),
             (''weekly'', rt_now rt - 7 * 24 * 60 * 60 * 1000),
             (''monthly'', rt_now rt - 30 * 24 * 60 * 60 * 1000)]
      in case get_prop dateMap since of
           Own d \<Rightarrow> DateObject d
         | Inherited \<Rightarrow> PrototypeMember
         | Absent \<Rightarrow>
             (case get_prop dateMap ''weekly'' of
                Own d \<Rightarrow> DateObject d
              | Inherited \<Rightarrow> PrototypeMember
              | Absent \<Rightarrow> PrototypeMember))"

text \<open>\<open>s.split('T')[0]\<close>: the part of \<open>s\<close> in front of the first \<open>T\<close>.\<close>

definition split_T_first :: "string \<Rightarrow> string" where
  "split_T_first s = takeWhile (\<lambda>c. c \<noteq> CHR ''T'') s"

definition getTrendingRepos_query :: "string \<Rightarrow> string \<Rightarrow> string" where
  "getTrendingRepos_query dateString language =
     (let query = ''created:>'' @ dateString;
          query = (if language \<noteq> [] then query @ '' language:'' @ language else query)
      in query)"

text \<open>The \<open>try\<close> block of lines 334 to 352.\<close>

definition getTrendingRepos_body ::
    "runtime \<Rightarrow> transport \<Rightarrow> string \<Rightarrow> string \<Rightarrow> (js_error + repo_summary list) \<times> call list" where
  "getTrendingRepos_body rt t language since =
     (case sinceDate_of rt since of
        PrototypeMember \<Rightarrow> (Inl TypeError, [])
      | DateObject sinceDate \<Rightarrow>
          let dateString = split_T_first (rt_toISOString rt sinceDate);
              query = getTrendingRepos_query dateString language
          in searchRepositories t [] query
               \<lparr>o_sort = Str ''stars'', o_order = Str ''desc'',
                o_per_page = Num 30, o_page = Undefined\<rparr>)"

definition getTrendingRepos ::
    "runtime \<Rightarrow> transport \<Rightarrow> string \<Rightarrow> string \<Rightarrow> (js_error + repo_summary list) \<times> call list" where
  "getTrendingRepos rt t language since =
     (try_catch (fst (getTrendingRepos_body rt t language since)) (log_and_return []),
      snd (getTrendingRepos_body rt t language since))"

section \<open>Stub collaborators for the examples\<close>

text \<open>
  A fixed runtime and a fixed transport, as a test would stub them: the repository
  \<open>acme/site\<close> has a plain-text \<open>README.md\<close>, a base64 file \<open>hello.txt\<close> and a directory
  \<open>src\<close>; the
  repository \<open>acme/docs\<close> has no \<open>README.md\<close> but a \<open>README.rst\<close>. A search answers
  with seven repositories of six owners; the account of the owner \<open>ghost\<close> cannot be
  looked up.
\<close>

definition stub_runtime :: runtime where
  "stub_runtime =
     \<lparr>rt_extname = (\<lambda>name. []),
      rt_base64 = (\<lambda>s. if s = ''aGVsbG8='' then ''hello'' else []),
      rt_toISOString =
        (\<lambda>ms. if ms = 1717113600000 then ''2024-05-31T00:00:00.000Z''
              else if ms = 1716595200000 then ''2024-05-25T00:00:00.000Z''
              else if ms = 1714608000000 then ''2024-05-02T00:00:00.000Z''
              else ''1970-01-01T00:00:00.000Z''),
      rt_Date_parse = (\<lambda>s. if s = ''2024-05-01T00:00:00Z'' then Some 1714521600000 else None),
      rt_now = 1717200000000\<rparr>"

definition stub_file :: "string \<Rightarrow> string \<Rightarrow> string \<Rightarrow> getContent_data" where
  "stub_file name encoding content =
     Data_entry
       \<lparr>fp_name = Str name, fp_path = Str name, fp_size = Num (int (length content)),
        fp_content = Str content, fp_encoding = Str encoding, fp_sha = Str ''0a1b'',
        fp_download_url = Null\<rparr>"

definition stub_getContent ::
    "call list \<Rightarrow> string \<Rightarrow> string \<Rightarrow> string \<Rightarrow> string \<Rightarrow> js_error + getContent_data" where
  "stub_getContent tr owner repo path ref =
     (if repo = ''site'' \<and> path = ''README.md'' then
        Inr (stub_file path ''utf-8'' ''We are a SaaS company providing an enterprise platform'')
      else if repo = ''site'' \<and> path = ''hello.txt'' then
        Inr (stub_file path ''base64'' ''aGVsbG8='')
      else if repo = ''site'' \<and> path = ''src'' then
        Inr (Data_listing
               [\<lparr>it_type = ''file'', it_name = ''index.js'', it_path = ''src/index.js'',
                 it_size = 10, it_download_url = None\<rparr>])
      else if repo = ''docs'' \<and> path = ''README.rst'' then
        Inr (stub_file path ''utf-8'' ''Acme company'')
      else Inl RequestError)"

definition stub_repo_data :: "string \<Rightarrow> repo_data" where
  "stub_repo_data full_name =
     \<lparr>rd_full_name = full_name, rd_description = Some ''Acme web site'', rd_language = None,
      rd_stargazers_count = 150, rd_forks_count = 2, rd_open_issues_count = 0,
      rd_topics = Some [], rd_license = None, rd_homepage = Some [],
      rd_created_at = ''2020-01-01T00:00:00Z'', rd_updated_at = ''2024-05-01T00:00:00Z''\<rparr>"

definition stub_repo :: "string \<Rightarrow> string \<Rightarrow> int \<Rightarrow> raw_repo" where
  "stub_repo owner name stars =
     \<lparr>rr_id = stars, rr_name = name, rr_full_name = owner @ ''/'' @ name,
      rr_owner_login = owner, rr_description = None, rr_html_url = ''https://github.com/'' @ owner,
      rr_clone_url = [], rr_language = Some ''Go'', rr_stargazers_count = stars,
      rr_forks_count = 0, rr_open_issues_count = 0, rr_topics = None,
      rr_created_at = ''2020-01-01T00:00:00Z'', rr_updated_at = ''2024-05-01T00:00:00Z'',
      rr_license = None\<rparr>"

definition stub_search_results :: "raw_repo list" where
  "stub_search_results =
     [stub_repo ''ghost'' ''g1'' 500, stub_repo ''big'' ''b1'' 300, stub_repo ''acme'' ''a1'' 200,
      stub_repo ''acme'' ''a2'' 150, stub_repo ''zeta'' ''z1'' 110, stub_repo ''123'' ''n1'' 110,
      stub_repo ''solo'' ''s1'' 50]"

definition stub_account :: "string \<Rightarrow> int \<Rightarrow> account" where
  "stub_account type public_repos =
     \<lparr>acc_name = None, acc_type = type, acc_bio = None, acc_location = None, acc_blog = None,
      acc_html_url = [], acc_avatar_url = [], acc_public_repos = public_repos,
      acc_followers = 0, acc_following = 0, acc_created_at = ''2019-01-01T00:00:00Z''\<rparr>"

definition stub_getByUsername :: "call list \<Rightarrow> string \<Rightarrow> js_error + account" where
  "stub_getByUsername tr username =
     (if username = ''big'' then Inr (stub_account ''Organization'' 40)
      else if username = ''acme'' then Inr (stub_account ''Organization'' 12)
      else if username = ''zeta'' then Inr (stub_account ''User'' 9)
      else if username = ''123'' then Inr (stub_account ''User'' 30)
      else if username = ''solo'' then Inr (stub_account ''User'' 3)
      else Inl RequestError)"

definition stub_transport :: transport where
  "stub_transport =
     \<lparr>repos_getContent = stub_getContent,
      search_repos = (\<lambda>tr so. Inr stub_search_results),
      users_getByUsername = stub_getByUsername,
      repos_get = (\<lambda>tr owner repo. if owner = ''acme'' then Inr (stub_repo_data (owner @ ''/'' @ repo))
                                    else Inl RequestError)\<rparr>"

text \<open>A transport whose every call rejects with \<open>undefined\<close>.\<close>

definition rejecting_transport :: transport where
  "rejecting_transport =
     \<lparr>repos_getContent = (\<lambda>tr owner repo path ref. Inl (Thrown Undefined)),
      search_repos = (\<lambda>tr so. Inl (Thrown Undefined)),
      users_getByUsername = (\<lambda>tr u. Inl (Thrown Undefined)),
      repos_get = (\<lambda>tr owner repo. Inl (Thrown Undefined))\<rparr>"

definition stub_criteria :: criteria where
  "stub_criteria =
     \<lparr>c_industry = Undefined, c_technology = Str ''Go'', c_location = Undefined,
      c_company = Undefined, c_minStars = Num 50, c_limit = Undefined\<rparr>"

text \<open>The number of days that a window keyword stands for.\<close>

definition lookback_days :: "string \<Rightarrow> int" where
  "lookback_days since =
     (if since = ''daily'' then 1 else if since = ''monthly'' then 30 else 7)"

section \<open>The query as the specification words it\<close>

text \<open>
  Section 4.3 of the specification: each recognized key that counts adds its clause, in
  the order industry, technology, location, company, minStars; the clauses are joined
  by one space; without any clause the query is \<open>type:org\<close>. Which keys count is a
  parameter: \<open>key_present\<close> reads "present" as "the criteria object has the key",
  \<open>truthy\<close> as "the value passes the test \<open>if (criteria.key)\<close>".
\<close>

definition key_present :: "jsval \<Rightarrow> bool" where
  "key_present v = (v \<noteq> Undefined)"

definition spec_clauses :: "(jsval \<Rightarrow> bool) \<Rightarrow> criteria \<Rightarrow> string list" where
  \<open>spec_clauses counts c =
     (if counts (c_industry c) then [''topic:'' @ template (c_industry c)] else [])
     @ (if counts (c_technology c) then [''language:'' @ template (c_technology c)] else [])
     @ (if counts (c_location c) then [''location:"'' @ template (c_location c) @ ''"''] else [])
     @ (if counts (c_company c) then [template (c_company c) @ '' in:name,description''] else [])
     @ (if counts (c_minStars c) then [''stars:>='' @ template (c_minStars c)] else [])\<close>

definition spec_query :: "(jsval \<Rightarrow> bool) \<Rightarrow> criteria \<Rightarrow> string" where
  "spec_query counts c =
     (if spec_clauses counts c = [] then ''type:org'' else join '' '' (spec_clauses counts c))"

section \<open>Invariants of the loop of findBusinesses\<close>

text \<open>
  An account is looked up at most once, and only for an owner that is in the map.
\<close>

definition lookups_deduplicated :: "(string \<times> business) list \<Rightarrow> call list \<Rightarrow> bool" where
  "lookups_deduplicated businesses tr =
     (\<forall>u. count_list tr (GetByUsername u) \<le> (if u \<in> set (map fst businesses) then 1 else 0))"

text \<open>
  The keys of the map are distinct, every profile carries its key as user name, and
  every profile holds a repository.
\<close>

definition profiles_consistent :: "(string \<times> business) list \<Rightarrow> bool" where
  "profiles_consistent businesses =
     (distinct (map fst businesses)
      \<and> list_all (\<lambda>kb. b_username (snd kb) = fst kb \<and> b_repositories (snd kb) \<noteq> []) businesses)"

text \<open>
  Every failed lookup of the run has left a profile of type \<open>unknown\<close> without a
  repository count in the map.
\<close>

definition failed_lookups_unknown ::
    "transport \<Rightarrow> (string \<times> business) list \<Rightarrow> call list \<Rightarrow> bool" where
  "failed_lookups_unknown t businesses tr =
     (\<forall>i u e. i < length tr \<and> tr ! i = GetByUsername u
               \<and> users_getByUsername t (take i tr) u = Inl e
        \<longrightarrow> (\<exists>b. map_of businesses u = Some b \<and> b_type b = ''unknown''
                 \<and> b_public_repos b = None))"

section \<open>Properties of listRepoFiles\<close>

lemma log_and_return_cases:
  "log_and_return v error = Inr v \<or> log_and_return v error = Inl TypeError"
  by (simp add: log_and_return_def error_message_def)

lemma log_and_return_Inl: "log_and_return v error = Inl e \<Longrightarrow> e = TypeError"
  by (simp add: log_and_return_def error_message_def split: if_splits)

lemma log_and_return_Inr: "log_and_return v error = Inr w \<Longrightarrow> w = v"
  by (simp add: log_and_return_def error_message_def split: if_splits)

lemma log_and_return_Error [simp]: "\<not> nullish error \<Longrightarrow> log_and_return v error = Inr v"
  by (simp add: log_and_return_def error_message_def)

lemma log_and_return_nullish [simp]: "nullish error \<Longrightarrow> log_and_return v error = Inl TypeError"
  by (simp add: log_and_return_def error_message_def)

lemma not_nullish_Error [simp]: "\<not> nullish TypeError" "\<not> nullish RequestError"
  by (simp_all add: nullish_def)

lemma nullish_Thrown [simp]: "nullish (Thrown Undefined)" "nullish (Thrown Null)"
  by (simp_all add: nullish_def)

text \<open>
  Whatever the tree and the filter are, listRepoFiles returns no file: its result is
  the empty list, or the rejection that the \<open>catch\<close> block itself raises.
\<close>

lemma listRepoFiles_empty:
  "listRepoFiles rt c owner repo path ref exts = Inr []
   \<or> listRepoFiles rt c owner repo path ref exts = Inl TypeError"
  "listRepoFiles_loop rt ens owner repo path ref exts files = Inl TypeError
   \<or> listRepoFiles_loop rt ens owner repo path ref exts files = Inr files"
proof (induction rt c owner repo path ref exts and rt ens owner repo path ref exts files
      rule: listRepoFiles_listRepoFiles_loop.induct)
  case (1 rt e owner repo path ref extensions)
  then show ?case
    using log_and_return_cases [of "[]" e] by (simp add: try_catch_def)
next
  case (2 rt en owner repo path ref extensions)
  then show ?case by (auto simp: try_catch_def)
next
  case (3 rt ens owner repo path ref extensions)
  then show ?case by (auto simp: try_catch_def)
next
  case (4 rt owner repo path ref extensions files)
  then show ?case by simp
next
  case (5 rt item sub rest owner repo path ref extensions files)
  then show ?case
    by (auto simp: call_extname_def member_extname_def split: sum.splits)
qed

lemma listRepoFiles_returns:
  assumes "\<forall>e. tree = Fails e \<longrightarrow> \<not> nullish e"
  shows "listRepoFiles rt tree owner repo path ref extensions = Inr []"
proof (cases tree)
  case (Fails e)
  then show ?thesis using assms by (simp add: try_catch_def)
next
  case (Data_object en)
  then show ?thesis
    using listRepoFiles_empty(2) [of rt "[en]" owner repo path ref extensions "[]"]
    by (auto simp: try_catch_def)
next
  case (Data_array ens)
  then show ?thesis
    using listRepoFiles_empty(2) [of rt ens owner repo path ref extensions "[]"]
    by (auto simp: try_catch_def)
qed

text \<open>
  C1: listRepoFiles should return the files of the tree under the root path that pass
  the extension filter, and all of them when the filter is empty. The code does not:
  for a root directory that holds the single file \<open>index.js\<close> and an empty filter, the
  call of \<open>path.extname\<close> on the string parameter \<open>path\<close> throws, the \<open>catch\<close> block
  takes over, and the result is the empty list.
\<close>

theorem listRepoFiles_single_file_lost:
  "listRepoFiles rt
     (Data_array [Entry \<lparr>it_type = ''file'', it_name = ''index.js'', it_path = ''index.js'',
                         it_size = 10, it_download_url = None\<rparr> (Fails RequestError)])
     ''acme'' ''site'' [] ''main'' [] = Inr []"
  by (simp add: try_catch_def call_extname_def member_extname_def)

section \<open>Properties of fetchRepoFile\<close>

lemma fetchRepoFile_rejected:
  "repos_getContent t tr owner repo filePath ref = Inl e \<Longrightarrow>
   fst (fetchRepoFile rt t tr owner repo filePath ref) = log_and_return None e"
  by (simp add: fetchRepoFile_def try_catch_def)

lemma fetchRepoFile_answered:
  "repos_getContent t tr owner repo filePath ref = Inr answer \<Longrightarrow>
   \<exists>v. fst (fetchRepoFile rt t tr owner repo filePath ref) = Inr v"
  by (auto simp: fetchRepoFile_def try_catch_def Buffer_from_base64_def
      split: sum.splits jsval.splits)

lemma fetchRepoFile_returns:
  assumes "\<forall>e. repos_getContent t tr owner repo filePath ref = Inl e \<longrightarrow> \<not> nullish e"
  shows "\<exists>v. fst (fetchRepoFile rt t tr owner repo filePath ref) = Inr v"
proof (cases "repos_getContent t tr owner repo filePath ref")
  case (Inl e)
  then show ?thesis using assms fetchRepoFile_rejected [OF Inl, of rt] by simp
next
  case (Inr answer)
  then show ?thesis by (rule fetchRepoFile_answered)
qed

lemma fetchRepoFile_Inl: "fst (fetchRepoFile rt t tr owner repo filePath ref) = Inl e \<Longrightarrow> e = TypeError"
proof (cases "repos_getContent t tr owner repo filePath ref")
  case (Inl e')
  assume "fst (fetchRepoFile rt t tr owner repo filePath ref) = Inl e"
  then show ?thesis
    using fetchRepoFile_rejected [OF Inl, of rt] by (auto dest: log_and_return_Inl)
next
  case (Inr answer)
  assume "fst (fetchRepoFile rt t tr owner repo filePath ref) = Inl e"
  then show ?thesis using fetchRepoFile_answered [OF Inr, of rt] by auto
qed

lemma snd_fetchRepoFile [simp]:
  "snd (fetchRepoFile rt t tr owner repo filePath ref) = tr @ [GetContent owner repo filePath ref]"
  by (simp add: fetchRepoFile_def)

text \<open>
  C9 (amended): fetchRepoFile returns \<open>null\<close>, and no error, when the transport rejects
  with an Error object (any value but \<open>undefined\<close> and \<open>null\<close>). When the transport
  answers with one entry whose encoding is \<open>base64\<close> and whose content is a string, the
  result carries the decoder's output on the whole content; when the content is not a
  string the result is \<open>null\<close>. For an entry with any other encoding the content passes
  through as it is. No result holds a partly decoded content.
\<close>

theorem fetchRepoFile_result:
  "(\<forall>e. repos_getContent t tr owner repo filePath ref = Inl e \<and> \<not> nullish e \<longrightarrow>
        fst (fetchRepoFile rt t tr owner repo filePath ref) = Inr None)
   \<and> (\<forall>file s. repos_getContent t tr owner repo filePath ref = Inr (Data_entry file)
          \<and> fp_encoding file = Str ''base64'' \<and> fp_content file = Str s \<longrightarrow>
        (\<exists>r. fst (fetchRepoFile rt t tr owner repo filePath ref) = Inr (Some r)
           \<and> fc_content r = Str (rt_base64 rt s)
           \<and> fc_name r = fp_name file \<and> fc_path r = fp_path file \<and> fc_size r = fp_size file
           \<and> fc_encoding r = fp_encoding file \<and> fc_sha r = fp_sha file
           \<and> fc_download_url r = fp_download_url file))
   \<and> (\<forall>file. repos_getContent t tr owner repo filePath ref = Inr (Data_entry file)
          \<and> fp_encoding file = Str ''base64'' \<and> (\<forall>s. fp_content file \<noteq> Str s) \<longrightarrow>
        fst (fetchRepoFile rt t tr owner repo filePath ref) = Inr None)
   \<and> (\<forall>file. repos_getContent t tr owner repo filePath ref = Inr (Data_entry file)
          \<and> fp_encoding file \<noteq> Str ''base64'' \<longrightarrow>
        (\<exists>r. fst (fetchRepoFile rt t tr owner repo filePath ref) = Inr (Some r)
           \<and> fc_content r = fp_content file
           \<and> fc_name r = fp_name file \<and> fc_path r = fp_path file \<and> fc_size r = fp_size file
           \<and> fc_encoding r = fp_encoding file \<and> fc_sha r = fp_sha file
           \<and> fc_download_url r = fp_download_url file))"
proof (intro conjI allI impI)
  fix e
  assume "repos_getContent t tr owner repo filePath ref = Inl e \<and> \<not> nullish e"
  then show "fst (fetchRepoFile rt t tr owner repo filePath ref) = Inr None"
    using fetchRepoFile_rejected [of t tr owner repo filePath ref e rt] by simp
next
  fix payload s
  assume "repos_getContent t tr owner repo filePath ref = Inr (Data_entry payload)
          \<and> fp_encoding payload = Str ''base64'' \<and> fp_content payload = Str s"
  then show "\<exists>r. fst (fetchRepoFile rt t tr owner repo filePath ref) = Inr (Some r)
           \<and> fc_content r = Str (rt_base64 rt s)
           \<and> fc_name r = fp_name payload \<and> fc_path r = fp_path payload \<and> fc_size r = fp_size payload
           \<and> fc_encoding r = fp_encoding payload \<and> fc_sha r = fp_sha payload
           \<and> fc_download_url r = fp_download_url payload"
    by (simp add: fetchRepoFile_def try_catch_def data_property_def Buffer_from_base64_def)
next
  fix payload
  assume "repos_getContent t tr owner repo filePath ref = Inr (Data_entry payload)
          \<and> fp_encoding payload = Str ''base64'' \<and> (\<forall>s. fp_content payload \<noteq> Str s)"
  then show "fst (fetchRepoFile rt t tr owner repo filePath ref) = Inr None"
    by (cases "fp_content payload")
       (simp_all add: fetchRepoFile_def try_catch_def data_property_def Buffer_from_base64_def)
next
  fix payload
  assume "repos_getContent t tr owner repo filePath ref = Inr (Data_entry payload)
          \<and> fp_encoding payload \<noteq> Str ''base64''"
  then show "\<exists>r. fst (fetchRepoFile rt t tr owner repo filePath ref) = Inr (Some r)
           \<and> fc_content r = fp_content payload
           \<and> fc_name r = fp_name payload \<and> fc_path r = fp_path payload \<and> fc_size r = fp_size payload
           \<and> fc_encoding r = fp_encoding payload \<and> fc_sha r = fp_sha payload
           \<and> fc_download_url r = fp_download_url payload"
    by (simp add: fetchRepoFile_def try_catch_def data_property_def)
qed

theorem fetchRepoFile_result_witness:
  "repos_getContent stub_transport [] ''acme'' ''site'' ''hello.txt'' ''main''
     = Inr (stub_file ''hello.txt'' ''base64'' ''aGVsbG8='')
   \<and> (\<exists>r. fst (fetchRepoFile stub_runtime stub_transport [] ''acme'' ''site'' ''hello.txt'' ''main'')
            = Inr (Some r) \<and> fc_content r = Str ''hello'')
   \<and> repos_getContent stub_transport [] ''acme'' ''site'' ''README.md'' ''main''
     = Inr (stub_file ''README.md'' ''utf-8''
              ''We are a SaaS company providing an enterprise platform'')
   \<and> (\<exists>r. fst (fetchRepoFile stub_runtime stub_transport [] ''acme'' ''site'' ''README.md'' ''main'')
            = Inr (Some r)
          \<and> fc_content r = Str ''We are a SaaS company providing an enterprise platform'')
   \<and> repos_getContent stub_transport [] ''acme'' ''site'' ''LICENSE'' ''main'' = Inl RequestError
   \<and> \<not> nullish RequestError
   \<and> fst (fetchRepoFile stub_runtime stub_transport [] ''acme'' ''site'' ''LICENSE'' ''main'')
       = Inr None"
  using fetchRepoFile_result [of stub_transport "[]" "''acme''" "''site''" "''hello.txt''" "''main''" stub_runtime]
    fetchRepoFile_result [of stub_transport "[]" "''acme''" "''site''" "''README.md''" "''main''" stub_runtime]
    fetchRepoFile_result [of stub_transport "[]" "''acme''" "''site''" "''LICENSE''" "''main''" stub_runtime]
  by (auto simp: stub_transport_def stub_getContent_def stub_file_def stub_runtime_def)

text \<open>
  C9 as it is worded fails twice. For the path of a directory, \<open>src\<close>, the transport
  answers with an array: the object exists and the request succeeds, but the result is
  neither \<open>null\<close> nor a content: it is an object whose properties are all \<open>undefined\<close>.
  And when the transport rejects with \<open>undefined\<close>, the read of \<open>error.message\<close> in the
  \<open>catch\<close> block throws, so the method ends with an error.
\<close>

theorem fetchRepoFile_directory_and_undefined:
  "repos_getContent stub_transport [] ''acme'' ''site'' ''src'' ''main''
     = Inr (Data_listing
              [\<lparr>it_type = ''file'', it_name = ''index.js'', it_path = ''src/index.js'',
                it_size = 10, it_download_url = None\<rparr>])
   \<and> fst (fetchRepoFile stub_runtime stub_transport [] ''acme'' ''site'' ''src'' ''main'')
       = Inr (Some \<lparr>fc_name = Undefined, fc_path = Undefined, fc_size = Undefined,
                    fc_content = Undefined, fc_encoding = Undefined, fc_sha = Undefined,
                    fc_download_url = Undefined\<rparr>)
   \<and> repos_getContent rejecting_transport [] ''acme'' ''site'' ''README.md'' ''main''
       = Inl (Thrown Undefined)
   \<and> fst (fetchRepoFile stub_runtime rejecting_transport [] ''acme'' ''site'' ''README.md'' ''main'')
       = Inl TypeError"
  by (simp add: stub_transport_def stub_getContent_def rejecting_transport_def fetchRepoFile_def
      try_catch_def data_property_def)

section \<open>Properties of analyzeRepository\<close>

lemma distinct_count_list_le: "distinct xs \<Longrightarrow> count_list xs x \<le> 1"
  by (induction xs) auto

lemma length_indicator_values: "length (indicator_values i) = 7"
  by (simp add: indicator_values_def)

lemma distinct_businessKeywords: "distinct businessKeywords"
  by (simp add: businessKeywords_def)

lemma length_businessKeywords: "length businessKeywords = 16"
  by (simp add: businessKeywords_def)

text \<open>
  C6: in every result of analyzeRepository the business score is the number of true
  indicators plus the number of matched keywords; it lies between 0 and the number of
  indicators (7) plus the length of the keyword list (16); and no keyword is counted
  twice.
\<close>

theorem analyzeRepository_businessScore:
  assumes "fst (analyzeRepository rt t owner repo) = Inr (Some r)"
  shows "an_businessScore r
           = int (length (filter (\<lambda>v. v) (indicator_values (an_businessIndicators r))))
             + int (length (an_keywordMatches r))
         \<and> 0 \<le> an_businessScore r
         \<and> an_businessScore r
             \<le> int (length (indicator_values (an_businessIndicators r)))
               + int (length businessKeywords)
         \<and> an_businessScore r \<le> 23
         \<and> set (an_keywordMatches r) \<subseteq> set businessKeywords
         \<and> (\<forall>keyword. count_list (an_keywordMatches r) keyword \<le> 1)"
proof -
  have body: "fst (analyzeRepository_body rt t owner repo) = Inr (Some r)"
  proof (cases "fst (analyzeRepository_body rt t owner repo)")
    case (Inl e)
    then show ?thesis
      using assms by (auto simp: analyzeRepository_def try_catch_def dest: log_and_return_Inr)
  next
    case (Inr v)
    then show ?thesis using assms by (simp add: analyzeRepository_def try_catch_def)
  qed
  obtain repoData where rd: "repos_get t [] owner repo = Inr repoData"
    using body by (cases "repos_get t [] owner repo") (auto simp: analyzeRepository_body_def)
  define content where "content = fst (analyzeRepository_readme rt t [ReposGet owner repo] owner repo)"
  obtain matches where m: "keywordMatches_of content = Inr matches"
    using body rd
    by (cases "keywordMatches_of content")
       (auto simp: analyzeRepository_body_def Let_def content_def)
  obtain s where s: "content = Str s"
    and ms: "matches = filter (\<lambda>keyword. str_includes (toLowerCase s) keyword) businessKeywords"
    using m by (cases content) (auto simp: keywordMatches_of_def)
  have ind: "an_businessIndicators r = businessIndicators_of rt repoData"
    and kw: "an_keywordMatches r = matches"
    and sc: "an_businessScore r
               = int (length (filter (\<lambda>v. v) (indicator_values (businessIndicators_of rt repoData))))
                 + int (length matches)"
    using body rd m
    by (auto simp: analyzeRepository_body_def Let_def content_def)
  have d: "distinct matches"
    by (simp add: ms distinct_businessKeywords)
  have l1: "length (filter (\<lambda>v. v) (indicator_values (businessIndicators_of rt repoData))) \<le> 7"
    using length_filter_le [of "\<lambda>v. v" "indicator_values (businessIndicators_of rt repoData)"]
    by (simp add: length_indicator_values)
  have l2: "length matches \<le> 16"
    using length_filter_le [of _ businessKeywords]
    by (simp add: ms length_businessKeywords)
  have c: "count_list matches keyword \<le> 1" for keyword
    using d by (rule distinct_count_list_le)
  show ?thesis
    using l1 l2 c by (simp add: ind kw sc length_indicator_values length_businessKeywords ms)
qed

theorem analyzeRepository_businessScore_witness:
  "\<exists>r. fst (analyzeRepository stub_runtime stub_transport ''acme'' ''site'') = Inr (Some r)
      \<and> an_keywordMatches r = [''company'', ''enterprise'', ''platform'', ''saas'']
      \<and> length (filter (\<lambda>v. v) (indicator_values (an_businessIndicators r))) = 3
      \<and> an_businessScore r = 7
      \<and> an_businessScore r \<le> 23"
proof -
  obtain r where r: "fst (analyzeRepository stub_runtime stub_transport ''acme'' ''site'') = Inr (Some r)"
    and k: "an_keywordMatches r = [''company'', ''enterprise'', ''platform'', ''saas'']"
    and i: "length (filter (\<lambda>v. v) (indicator_values (an_businessIndicators r))) = 3"
    by (simp add: analyzeRepository_def analyzeRepository_body_def try_catch_def Let_def
        stub_transport_def stub_getContent_def stub_file_def stub_runtime_def stub_repo_data_def
        analyzeRepository_readme_def fetchRepoFile_def businessIndicators_of_def
        keywordMatches_of_def businessKeywords_def toLowerCase_def toLowerCase_char_def
        indicator_values_def truthy_string_def data_property_def)
  show ?thesis
    using analyzeRepository_businessScore [OF r] r k i by simp
qed

text \<open>
  Unless the transport rejects the request for \<open>README.md\<close> with \<open>undefined\<close> or
  \<open>null\<close>, that request is the only one, and a missing \<open>README.md\<close> leaves the empty
  string.
\<close>

lemma analyzeRepository_readme_primary_only:
  assumes "\<forall>e. repos_getContent t tr owner repo ''README.md'' ''main'' = Inl e \<longrightarrow> \<not> nullish e"
  shows "snd (analyzeRepository_readme rt t tr owner repo)
           = tr @ [GetContent owner repo ''README.md'' ''main'']"
proof -
  obtain v where v: "fst (fetchRepoFile rt t tr owner repo ''README.md'' ''main'') = Inr v"
    using fetchRepoFile_returns [OF assms] by blast
  have f: "fetchRepoFile rt t tr owner repo ''README.md'' ''main''
             = (Inr v, tr @ [GetContent owner repo ''README.md'' ''main''])"
    using v snd_fetchRepoFile [of rt t tr owner repo "''README.md''" "''main''"]
    by (cases "fetchRepoFile rt t tr owner repo ''README.md'' ''main''") simp
  show ?thesis by (simp add: analyzeRepository_readme_def f)
qed

lemma analyzeRepository_readme_missing:
  assumes "repos_getContent t tr owner repo ''README.md'' ''main'' = Inl e" and "\<not> nullish e"
  shows "analyzeRepository_readme rt t tr owner repo
           = (Str [], tr @ [GetContent owner repo ''README.md'' ''main''])"
proof -
  have "fst (fetchRepoFile rt t tr owner repo ''README.md'' ''main'') = Inr None"
    using fetchRepoFile_rejected [OF assms(1), of rt] assms(2) by simp
  then have f: "fetchRepoFile rt t tr owner repo ''README.md'' ''main''
             = (Inr None, tr @ [GetContent owner repo ''README.md'' ''main''])"
    using snd_fetchRepoFile [of rt t tr owner repo "''README.md''" "''main''"]
    by (cases "fetchRepoFile rt t tr owner repo ''README.md'' ''main''") simp
  show ?thesis by (simp add: analyzeRepository_readme_def f)
qed

text \<open>
  C5: when \<open>README.md\<close> is absent, analyzeRepository should try \<open>README.rst\<close>,
  \<open>README.txt\<close> and \<open>README\<close> in turn. The code does not: fetchRepoFile never throws,
  so the \<open>catch\<close> block that holds the fallback loop is never entered. For \<open>acme/docs\<close>,
  whose \<open>README.rst\<close> reads "Acme company", only \<open>README.md\<close> is requested and no
  keyword is matched, although the text of \<open>README.rst\<close> matches \<open>company\<close>.
\<close>

theorem analyzeRepository_readme_fallback_unused:
  "repos_getContent stub_transport [ReposGet ''acme'' ''docs''] ''acme'' ''docs'' ''README.md'' ''main''
     = Inl RequestError
   \<and> repos_getContent stub_transport
        [ReposGet ''acme'' ''docs'', GetContent ''acme'' ''docs'' ''README.md'' ''main'']
        ''acme'' ''docs'' ''README.rst'' ''main''
     = Inr (stub_file ''README.rst'' ''utf-8'' ''Acme company'')
   \<and> keywordMatches_of (Str ''Acme company'') = Inr [''company'']
   \<and> (\<exists>r. analyzeRepository stub_runtime stub_transport ''acme'' ''docs''
            = (Inr (Some r),
               [ReposGet ''acme'' ''docs'', GetContent ''acme'' ''docs'' ''README.md'' ''main''])
          \<and> an_keywordMatches r = [])"
proof -
  have k0: "keywordMatches_of (Str []) = Inr []"
    by (simp add: keywordMatches_of_def businessKeywords_def toLowerCase_def)
  have k1: "keywordMatches_of (Str ''Acme company'') = Inr [''company'']"
    by (simp add: keywordMatches_of_def businessKeywords_def toLowerCase_def toLowerCase_char_def)
  have g: "repos_getContent stub_transport tr ''acme'' ''docs'' ''README.md'' ''main''
             = Inl RequestError" for tr
    by (simp add: stub_transport_def stub_getContent_def)
  have g2: "repos_getContent stub_transport tr ''acme'' ''docs'' ''README.rst'' ''main''
             = Inr (stub_file ''README.rst'' ''utf-8'' ''Acme company'')" for tr
    by (simp add: stub_transport_def stub_getContent_def)
  have r: "repos_get stub_transport [] ''acme'' ''docs'' = Inr (stub_repo_data ''acme/docs'')"
    by (simp add: stub_transport_def)
  have f: "fetchRepoFile stub_runtime stub_transport tr ''acme'' ''docs'' ''README.md'' ''main''
             = (Inr None, tr @ [GetContent ''acme'' ''docs'' ''README.md'' ''main''])" for tr
    by (simp add: fetchRepoFile_def try_catch_def g)
  have readme: "analyzeRepository_readme stub_runtime stub_transport tr ''acme'' ''docs''
                  = (Str [], tr @ [GetContent ''acme'' ''docs'' ''README.md'' ''main''])" for tr
    by (simp add: analyzeRepository_readme_def f)
  show ?thesis
    by (simp add: g g2 k1 k0 r readme analyzeRepository_def analyzeRepository_body_def
        try_catch_def Let_def)
qed

section \<open>Properties of getTrendingRepos\<close>

lemma sinceDate_of_inherited:
  "since \<in> set object_prototype_keys \<Longrightarrow> sinceDate_of rt since = PrototypeMember"
  by (auto simp: sinceDate_of_def get_prop_def object_prototype_keys_def Let_def)

text \<open>
  C8: a window keyword other than \<open>daily\<close>, \<open>weekly\<close> and \<open>monthly\<close> should fall
  back to the filter of 7 days. The code does not for the keyword \<open>constructor\<close>:
  \<open>dateMap['constructor']\<close> is the inherited function \<open>Object\<close>, the call of
  \<open>toISOString\<close> on it throws, and the method returns the empty list without any
  search.
\<close>

theorem getTrendingRepos_inherited_keyword:
  "getTrendingRepos rt t language ''constructor'' = (Inr [], [])"
  by (simp add: getTrendingRepos_def getTrendingRepos_body_def try_catch_def
      sinceDate_of_inherited object_prototype_keys_def)

text \<open>
  For every keyword that is not a member of \<open>Object.prototype\<close> the search is made
  with the window of 1, 7 or 30 days, the language clause when the language is not
  empty, and a page size of 30.
\<close>

lemma sinceDate_of_window:
  "since \<notin> set object_prototype_keys \<Longrightarrow>
   sinceDate_of rt since = DateObject (rt_now rt - lookback_days since * (24 * 60 * 60 * 1000))"
  by (auto simp: sinceDate_of_def get_prop_def Let_def lookback_days_def)

lemma getTrendingRepos_window:
  assumes "since \<notin> set object_prototype_keys"
  shows "snd (getTrendingRepos rt t language since) =
     [SearchRepos
        \<lparr>so_q = ''created:>''
                 @ split_T_first (rt_toISOString rt
                      (rt_now rt - lookback_days since * (24 * 60 * 60 * 1000)))
                 @ (if language \<noteq> [] then '' language:'' @ language else []),
         so_sort = Str ''stars'', so_order = Str ''desc'', so_per_page = Num 30,
         so_page = Num 1\<rparr>]"
  using sinceDate_of_window [OF assms, of rt]
  by (simp add: getTrendingRepos_def getTrendingRepos_body_def searchRepositories_def
      searchOptions_of_def getTrendingRepos_query_def js_or_def Let_def)

section \<open>Properties of findBusinesses: the query\<close>

text \<open>
  C7 (amended): the query joins, by one space and in the order industry, technology,
  location, company, minStars, the clause of every key whose value is truthy (a
  string that is not empty, a number that is not 0); when no key has a truthy value
  the query is \<open>type:org\<close>.
\<close>

theorem findBusinesses_query_clauses:
  "findBusinesses_query c = spec_query truthy c"
  by (simp add: findBusinesses_query_def spec_query_def spec_clauses_def Let_def)

theorem findBusinesses_query_clauses_witness:
  \<open>findBusinesses_query
     \<lparr>c_industry = Undefined, c_technology = Str ''Go'', c_location = Str ''Berlin'',
      c_company = Undefined, c_minStars = Num 500, c_limit = Undefined\<rparr>
   = ''language:Go location:"Berlin" stars:>=500''\<close>
  using findBusinesses_query_clauses
    [of "\<lparr>c_industry = Undefined, c_technology = Str ''Go'', c_location = Str ''Berlin'',
          c_company = Undefined, c_minStars = Num 500, c_limit = Undefined\<rparr>"]
  by (simp add: spec_query_def spec_clauses_def int_to_string_def digit_char_def
      digits.simps [of 500] digits.simps [of 50] digits.simps [of 5])

text \<open>
  C7 as it is worded fails: for the criteria \<open>{minStars: 0}\<close> the key is present, but the
  code adds no clause and asks for \<open>type:org\<close>, where the worded query is \<open>stars:>=0\<close>.
\<close>

theorem findBusinesses_query_zero_minStars:
  "findBusinesses_query
     \<lparr>c_industry = Undefined, c_technology = Undefined, c_location = Undefined,
      c_company = Undefined, c_minStars = Num 0, c_limit = Undefined\<rparr>
     = ''type:org''
   \<and> spec_query key_present
     \<lparr>c_industry = Undefined, c_technology = Undefined, c_location = Undefined,
      c_company = Undefined, c_minStars = Num 0, c_limit = Undefined\<rparr>
     = ''stars:>=0''
   \<and> findBusinesses_query
     \<lparr>c_industry = Undefined, c_technology = Undefined, c_location = Undefined,
      c_company = Undefined, c_minStars = Num 0, c_limit = Undefined\<rparr>
     \<noteq> spec_query key_present
     \<lparr>c_industry = Undefined, c_technology = Undefined, c_location = Undefined,
      c_company = Undefined, c_minStars = Num 0, c_limit = Undefined\<rparr>"
  by (simp add: findBusinesses_query_def spec_query_def spec_clauses_def key_present_def
      int_to_string_def digit_char_def digits.simps [of 0])

section \<open>Properties of findBusinesses: the owner map\<close>

lemma get_prop_Absent_iff:
  "get_prop obj k = Absent \<longleftrightarrow> map_of obj k = None \<and> k \<notin> set object_prototype_keys"
  by (simp add: get_prop_def split: option.splits)

lemma get_prop_Own_iff: "get_prop obj k = Own v \<longleftrightarrow> map_of obj k = Some v"
  by (simp add: get_prop_def split: option.splits)

lemma get_prop_Inherited_iff:
  "get_prop obj k = Inherited \<longleftrightarrow> map_of obj k = None \<and> k \<in> set object_prototype_keys"
  by (simp add: get_prop_def split: option.splits)

lemma get_prop_append_new:
  "get_prop obj k = Absent \<Longrightarrow> get_prop (obj @ [(k, v)]) k = Own v"
  by (simp add: get_prop_def map_add_def split: option.splits if_splits)

lemma findBusinesses_loop_Cons:
  "findBusinesses_loop t (repo # rest) businesses tr =
     (case get_prop businesses (rs_owner repo) of
        Own b \<Rightarrow>
          findBusinesses_loop t rest
            (push_repository businesses (rs_owner repo) (condensed repo)) tr
      | Inherited \<Rightarrow> (Inl TypeError, tr)
      | Absent \<Rightarrow>
          findBusinesses_loop t rest
            (push_repository
               (businesses @ [(rs_owner repo, findBusinesses_profile t tr (rs_owner repo))])
               (rs_owner repo) (condensed repo))
            (tr @ [GetByUsername (rs_owner repo)]))"
  by (cases "get_prop businesses (rs_owner repo)") (simp_all add: get_prop_append_new Let_def)

declare findBusinesses_loop.simps(2) [simp del]

lemma keys_push_repository [simp]:
  "map fst (push_repository businesses owner r) = map fst businesses"
  by (induction businesses) (auto simp: push_repository_def)

lemma map_of_push_repository:
  "map_of (push_repository businesses owner r) k =
     map_option (\<lambda>b. if k = owner then b\<lparr>b_repositories := b_repositories b @ [r]\<rparr> else b)
       (map_of businesses k)"
  by (induction businesses) (auto simp: push_repository_def)

lemma map_of_None_keys: "map_of obj k = None \<longleftrightarrow> k \<notin> set (map fst obj)"
  by (simp add: map_of_eq_None_iff)

lemma findBusinesses_loop_lookups:
  "lookups_deduplicated businesses tr \<Longrightarrow>
   count_list (snd (findBusinesses_loop t repos businesses tr)) (GetByUsername u) \<le> 1"
proof (induction repos arbitrary: businesses tr)
  case Nil
  then show ?case by (auto simp: lookups_deduplicated_def split: if_splits)
next
  case (Cons repo rest)
  let ?o = "rs_owner repo"
  show ?case
  proof (cases "get_prop businesses ?o")
    case (Own b)
    have "lookups_deduplicated (push_repository businesses ?o (condensed repo)) tr"
      using Cons.prems by (simp add: lookups_deduplicated_def)
    then show ?thesis using Own Cons.IH by (simp add: findBusinesses_loop_Cons)
  next
    case Inherited
    have "count_list tr (GetByUsername u) \<le> 1"
      using Cons.prems unfolding lookups_deduplicated_def
      by (metis le_zero_eq zero_le_one)
    then show ?thesis using Inherited by (simp add: findBusinesses_loop_Cons)
  next
    case Absent
    then have new: "?o \<notin> set (map fst businesses)"
      by (simp add: get_prop_Absent_iff map_of_None_keys)
    have "lookups_deduplicated
            (push_repository (businesses @ [(?o, findBusinesses_profile t tr ?o)]) ?o (condensed repo))
            (tr @ [GetByUsername ?o])"
      using Cons.prems new unfolding lookups_deduplicated_def
      by (auto split: if_splits)
    then show ?thesis using Absent Cons.IH by (simp add: findBusinesses_loop_Cons)
  qed
qed

lemma searchRepositories_Inl:
  "fst (searchRepositories t tr q opts) = Inl e \<Longrightarrow> e = TypeError"
proof (cases "search_repos t tr (searchOptions_of q opts)")
  case (Inl e')
  assume "fst (searchRepositories t tr q opts) = Inl e"
  then show ?thesis
    using Inl by (auto simp: searchRepositories_def try_catch_def Let_def dest: log_and_return_Inl)
next
  case (Inr items)
  assume "fst (searchRepositories t tr q opts) = Inl e"
  then show ?thesis using Inr by (simp add: searchRepositories_def try_catch_def Let_def)
qed

lemma snd_searchRepositories:
  "snd (searchRepositories t tr q opts) = tr @ [SearchRepos (searchOptions_of q opts)]"
  by (simp add: searchRepositories_def Let_def)

lemma findBusinesses_loop_Inl:
  "fst (findBusinesses_loop t repos businesses tr) = Inl e \<Longrightarrow> e = TypeError"
proof (induction repos arbitrary: businesses tr)
  case Nil
  then show ?case by simp
next
  case (Cons repo rest)
  then show ?case
    by (cases "get_prop businesses (rs_owner repo)") (auto simp: findBusinesses_loop_Cons)
qed

text \<open>
  C3: in one call of findBusinesses the account of an owner is looked up at most once,
  whatever the search answers and however many repositories the owner has.
\<close>

theorem findBusinesses_lookup_once:
  "count_list (snd (findBusinesses t c)) (GetByUsername ownerLogin) \<le> 1"
proof -
  obtain so where s: "snd (findBusinesses_search t c) = [SearchRepos so]"
    using snd_searchRepositories [of t "[]" "findBusinesses_query c"]
    by (auto simp: findBusinesses_search_def Let_def)
  show ?thesis
  proof (cases "fst (findBusinesses_search t c)")
    case (Inl e)
    then show ?thesis
      by (simp add: findBusinesses_def findBusinesses_filtered_def findBusinesses_businesses_def s)
  next
    case (Inr repos)
    have "lookups_deduplicated [] [SearchRepos so]"
      by (simp add: lookups_deduplicated_def)
    then have "count_list (snd (findBusinesses_loop t repos [] [SearchRepos so]))
                 (GetByUsername ownerLogin) \<le> 1"
      by (rule findBusinesses_loop_lookups)
    then show ?thesis
      by (simp add: findBusinesses_def findBusinesses_filtered_def findBusinesses_businesses_def
          Inr s split: sum.splits)
  qed
qed

theorem findBusinesses_lookup_once_witness:
  "length (filter (\<lambda>repo. rr_owner_login repo = ''acme'') stub_search_results) = 2
   \<and> count_list (snd (findBusinesses stub_transport stub_criteria)) (GetByUsername ''acme'') = 1
   \<and> count_list (snd (findBusinesses stub_transport stub_criteria)) (GetByUsername ''acme'') \<le> 1"
proof -
  have 1: "length (filter (\<lambda>repo. rr_owner_login repo = ''acme'') stub_search_results) = 2"
    by (simp add: stub_search_results_def stub_repo_def)
  have 2: "count_list (snd (findBusinesses stub_transport stub_criteria)) (GetByUsername ''acme'')
             = 1"
    by code_simp
  show ?thesis
    using findBusinesses_lookup_once [of stub_transport stub_criteria "''acme''"] 1 2 by simp
qed

lemma b_username_profile [simp]: "b_username (findBusinesses_profile t tr owner) = owner"
  by (simp add: findBusinesses_profile_def business_of_account_def basic_business_def
      split: sum.splits)

lemma entries_push_repository:
  "list_all (\<lambda>kb. b_username (snd kb) = fst kb \<and> b_repositories (snd kb) \<noteq> []) businesses \<Longrightarrow>
   list_all (\<lambda>kb. b_username (snd kb) = fst kb \<and> b_repositories (snd kb) \<noteq> [])
     (push_repository businesses owner r)"
  by (induction businesses) (simp_all add: push_repository_def)

lemma profiles_consistent_push:
  "profiles_consistent businesses \<Longrightarrow> profiles_consistent (push_repository businesses owner r)"
  by (simp add: profiles_consistent_def entries_push_repository)

lemma profiles_consistent_new:
  assumes "profiles_consistent businesses" and "get_prop businesses owner = Absent"
  shows "profiles_consistent
           (push_repository (businesses @ [(owner, findBusinesses_profile t tr owner)]) owner r)"
proof -
  have new: "owner \<notin> set (map fst businesses)"
    using assms(2) by (simp add: get_prop_Absent_iff map_of_None_keys)
  have keys: "distinct (map fst (businesses @ [(owner, findBusinesses_profile t tr owner)]))"
    using assms(1) new by (simp add: profiles_consistent_def)
  have old: "list_all (\<lambda>kb. b_username (snd kb) = fst kb \<and> b_repositories (snd kb) \<noteq> [])
               (push_repository businesses owner r)"
    using assms(1) by (simp add: profiles_consistent_def entries_push_repository)
  have split: "push_repository (businesses @ [(owner, findBusinesses_profile t tr owner)]) owner r
                 = push_repository businesses owner r
                   @ [(owner, (findBusinesses_profile t tr owner)
                        \<lparr>b_repositories := b_repositories (findBusinesses_profile t tr owner) @ [r]\<rparr>)]"
    by (simp add: push_repository_def)
  have entries: "list_all (\<lambda>kb. b_username (snd kb) = fst kb \<and> b_repositories (snd kb) \<noteq> [])
               (push_repository (businesses @ [(owner, findBusinesses_profile t tr owner)]) owner r)"
    unfolding split using old by simp
  show ?thesis
    unfolding profiles_consistent_def using keys entries by (simp del: map_append)
qed

lemma findBusinesses_loop_consistent:
  "profiles_consistent businesses \<Longrightarrow>
   fst (findBusinesses_loop t repos businesses tr) = Inr businesses' \<Longrightarrow>
   profiles_consistent businesses'"
proof (induction repos arbitrary: businesses tr)
  case Nil
  then show ?case by simp
next
  case (Cons repo rest)
  show ?case
  proof (cases "get_prop businesses (rs_owner repo)")
    case (Own b)
    then show ?thesis
      using Cons.prems Cons.IH [OF profiles_consistent_push]
      by (simp add: findBusinesses_loop_Cons)
  next
    case Inherited
    then show ?thesis using Cons.prems by (simp add: findBusinesses_loop_Cons)
  next
    case Absent
    then show ?thesis
      using Cons.prems Cons.IH [OF profiles_consistent_new]
      by (simp add: findBusinesses_loop_Cons)
  qed
qed

lemma failed_lookups_unknown_push:
  "failed_lookups_unknown t businesses tr \<Longrightarrow>
   failed_lookups_unknown t (push_repository businesses owner r) tr"
  unfolding failed_lookups_unknown_def
proof (intro allI impI)
  fix i u e
  assume h: "\<forall>i u e. i < length tr \<and> tr ! i = GetByUsername u
                 \<and> users_getByUsername t (take i tr) u = Inl e
               \<longrightarrow> (\<exists>b. map_of businesses u = Some b \<and> b_type b = ''unknown''
                        \<and> b_public_repos b = None)"
    and a: "i < length tr \<and> tr ! i = GetByUsername u
              \<and> users_getByUsername t (take i tr) u = Inl e"
  obtain b where b: "map_of businesses u = Some b" "b_type b = ''unknown''"
      "b_public_repos b = None"
    using h a by blast
  show "\<exists>b. map_of (push_repository businesses owner r) u = Some b
            \<and> b_type b = ''unknown'' \<and> b_public_repos b = None"
    using b by (simp add: map_of_push_repository)
qed

lemma failed_lookups_unknown_new:
  assumes "failed_lookups_unknown t businesses tr" and "get_prop businesses owner = Absent"
  shows "failed_lookups_unknown t
           (businesses @ [(owner, findBusinesses_profile t tr owner)])
           (tr @ [GetByUsername owner])"
  unfolding failed_lookups_unknown_def
proof (intro allI impI)
  fix i u e
  assume a: "i < length (tr @ [GetByUsername owner])
               \<and> (tr @ [GetByUsername owner]) ! i = GetByUsername u
               \<and> users_getByUsername t (take i (tr @ [GetByUsername owner])) u = Inl e"
  have none: "map_of businesses owner = None"
    using assms(2) by (simp add: get_prop_Absent_iff)
  show "\<exists>b. map_of (businesses @ [(owner, findBusinesses_profile t tr owner)]) u = Some b
            \<and> b_type b = ''unknown'' \<and> b_public_repos b = None"
  proof (cases "i < length tr")
    case True
    then have "tr ! i = GetByUsername u" and "users_getByUsername t (take i tr) u = Inl e"
      using a by (simp_all add: nth_append)
    then obtain b where "map_of businesses u = Some b" "b_type b = ''unknown''"
        "b_public_repos b = None"
      using assms(1) True unfolding failed_lookups_unknown_def by blast
    then show ?thesis by (auto simp: map_add_def)
  next
    case False
    then have i: "i = length tr" using a by simp
    then have u: "u = owner" and f: "users_getByUsername t tr owner = Inl e"
      using a by simp_all
    show ?thesis
      using none by (simp add: u map_add_def findBusinesses_profile_def f basic_business_def)
  qed
qed

lemma findBusinesses_loop_failed_lookups:
  "failed_lookups_unknown t businesses tr \<Longrightarrow>
   findBusinesses_loop t repos businesses tr = (Inr businesses', tr') \<Longrightarrow>
   failed_lookups_unknown t businesses' tr'"
proof (induction repos arbitrary: businesses tr)
  case Nil
  then show ?case by simp
next
  case (Cons repo rest)
  show ?case
  proof (cases "get_prop businesses (rs_owner repo)")
    case (Own b)
    then show ?thesis
      using Cons.prems Cons.IH [OF failed_lookups_unknown_push]
      by (simp add: findBusinesses_loop_Cons)
  next
    case Inherited
    then show ?thesis using Cons.prems by (simp add: findBusinesses_loop_Cons)
  next
    case Absent
    then show ?thesis
      using Cons.prems
        Cons.IH [OF failed_lookups_unknown_push [OF failed_lookups_unknown_new]]
      by (simp add: findBusinesses_loop_Cons)
  qed
qed

lemma findBusinesses_loop_completes:
  "list_all (\<lambda>r. rs_owner r \<notin> set object_prototype_keys) repos \<Longrightarrow>
   \<exists>businesses'. fst (findBusinesses_loop t repos businesses tr) = Inr businesses'"
proof (induction repos arbitrary: businesses tr)
  case Nil
  then show ?case by simp
next
  case (Cons repo rest)
  then have rest: "list_all (\<lambda>r. rs_owner r \<notin> set object_prototype_keys) rest"
    and own: "rs_owner repo \<notin> set object_prototype_keys"
    by simp_all
  show ?case
  proof (cases "get_prop businesses (rs_owner repo)")
    case (Own b)
    then show ?thesis using Cons.IH [OF rest] by (simp add: findBusinesses_loop_Cons)
  next
    case Inherited
    then show ?thesis using own by (simp add: get_prop_Inherited_iff)
  next
    case Absent
    then show ?thesis using Cons.IH [OF rest] by (simp add: findBusinesses_loop_Cons)
  qed
qed

text \<open>The repositories of the search results are collected in the profiles of their owners.\<close>

lemma findBusinesses_loop_keeps:
  "findBusinesses_loop t repos businesses tr = (Inr businesses', tr') \<Longrightarrow>
   map_of businesses k = Some b \<Longrightarrow>
   \<exists>b'. map_of businesses' k = Some b' \<and> set (b_repositories b) \<subseteq> set (b_repositories b')"
proof (induction repos arbitrary: businesses tr b)
  case Nil
  then show ?case by simp
next
  case (Cons repo rest)
  let ?o = "rs_owner repo"
  show ?case
  proof (cases "get_prop businesses ?o")
    case (Own b0)
    let ?bs = "push_repository businesses ?o (condensed repo)"
    have run: "findBusinesses_loop t rest ?bs tr = (Inr businesses', tr')"
      using Cons.prems(1) Own by (simp add: findBusinesses_loop_Cons)
    obtain b1 where b1: "map_of ?bs k = Some b1" "set (b_repositories b) \<subseteq> set (b_repositories b1)"
      using Cons.prems(2) by (cases "k = rs_owner repo") (auto simp: map_of_push_repository)
    show ?thesis using Cons.IH [OF run b1(1)] b1(2) by blast
  next
    case Inherited
    then show ?thesis using Cons.prems by (simp add: findBusinesses_loop_Cons)
  next
    case Absent
    let ?bs = "push_repository (businesses @ [(?o, findBusinesses_profile t tr ?o)]) ?o (condensed repo)"
    have run: "findBusinesses_loop t rest ?bs (tr @ [GetByUsername ?o]) = (Inr businesses', tr')"
      using Cons.prems(1) Absent by (simp add: findBusinesses_loop_Cons)
    obtain b1 where b1: "map_of ?bs k = Some b1" "set (b_repositories b) \<subseteq> set (b_repositories b1)"
      using Cons.prems(2)
      by (cases "k = rs_owner repo") (auto simp: map_of_push_repository map_add_def)
    show ?thesis using Cons.IH [OF run b1(1)] b1(2) by blast
  qed
qed

lemma findBusinesses_loop_collects:
  "findBusinesses_loop t repos businesses tr = (Inr businesses', tr') \<Longrightarrow>
   r \<in> set repos \<Longrightarrow>
   \<exists>b. map_of businesses' (rs_owner r) = Some b \<and> condensed r \<in> set (b_repositories b)"
proof (induction repos arbitrary: businesses tr)
  case Nil
  then show ?case by simp
next
  case (Cons repo rest)
  let ?o = "rs_owner repo"
  show ?case
  proof (cases "get_prop businesses ?o")
    case (Own b0)
    let ?bs = "push_repository businesses ?o (condensed repo)"
    have run: "findBusinesses_loop t rest ?bs tr = (Inr businesses', tr')"
      using Cons.prems(1) Own by (simp add: findBusinesses_loop_Cons)
    show ?thesis
    proof (cases "r = repo")
      case True
      have "\<exists>b1. map_of ?bs ?o = Some b1 \<and> condensed repo \<in> set (b_repositories b1)"
        using Own by (simp add: map_of_push_repository get_prop_Own_iff)
      then show ?thesis using findBusinesses_loop_keeps [OF run] True by blast
    next
      case False
      then show ?thesis using Cons.IH [OF run] Cons.prems(2) by simp
    qed
  next
    case Inherited
    then show ?thesis using Cons.prems by (simp add: findBusinesses_loop_Cons)
  next
    case Absent
    let ?bs = "push_repository (businesses @ [(?o, findBusinesses_profile t tr ?o)]) ?o (condensed repo)"
    have run: "findBusinesses_loop t rest ?bs (tr @ [GetByUsername ?o]) = (Inr businesses', tr')"
      using Cons.prems(1) Absent by (simp add: findBusinesses_loop_Cons)
    show ?thesis
    proof (cases "r = repo")
      case True
      have "map_of businesses ?o = None" using Absent by (simp add: get_prop_Absent_iff)
      then have "\<exists>b1. map_of ?bs ?o = Some b1 \<and> condensed repo \<in> set (b_repositories b1)"
        by (simp add: map_of_push_repository map_add_def)
      then show ?thesis using findBusinesses_loop_keeps [OF run] True by blast
    next
      case False
      then show ?thesis using Cons.IH [OF run] Cons.prems(2) by simp
    qed
  qed
qed

section \<open>Properties of findBusinesses: filter and ranking\<close>

lemma score_sum_list: "score a = sum_list (map br_stars (b_repositories a))"
proof -
  have sum: "foldl (\<lambda>sum repo. sum + br_stars repo) acc rs = acc + sum_list (map br_stars rs)"
    for acc rs
    by (induction rs arbitrary: acc) simp_all
  show ?thesis unfolding score_def sum by simp
qed

lemma sort_insert_compare:
  "sort_insert compare_businesses x ys = insort_key (\<lambda>b. - score b) x ys"
  by (induction ys) (simp_all add: compare_businesses_def)

lemma js_sort_compare: "js_sort compare_businesses xs = sort_key (\<lambda>b. - score b) xs"
  by (induction xs) (simp_all add: js_sort_def sort_insert_compare)

lemma js_sort_descending:
  assumes "i < length (js_sort compare_businesses xs)"
    and "j < length (js_sort compare_businesses xs)"
    and "score (js_sort compare_businesses xs ! j) < score (js_sort compare_businesses xs ! i)"
  shows "i < j"
proof (rule ccontr)
  assume "\<not> i < j"
  then have ji: "j \<le> i" by simp
  let ?ys = "sort_key (\<lambda>b. - score b) xs"
  have "sorted (map (\<lambda>b. - score b) ?ys)" by (rule sorted_sort_key)
  then have "map (\<lambda>b. - score b) ?ys ! j \<le> map (\<lambda>b. - score b) ?ys ! i"
    using ji assms(1) by (simp add: sorted_iff_nth_mono js_sort_compare)
  then show False using assms ji by (simp add: js_sort_compare)
qed

lemma js_sort_stable:
  "filter (\<lambda>p. score p = s) (js_sort compare_businesses xs) = filter (\<lambda>p. score p = s) xs"
proof -
  have "filter (\<lambda>p. - score p = - s) (sort_key (\<lambda>b. - score b) xs)
          = filter (\<lambda>p. - score p = - s) xs"
    by (rule sort_key_stable)
  then show ?thesis by (simp add: js_sort_compare)
qed
lemma set_Object_values: "set (Object_values obj) = snd ` set obj"
  by (auto simp: Object_values_def)

lemma set_js_sort: "set (js_sort compare_businesses xs) = set xs"
  by (simp add: js_sort_compare)

text \<open>
  C4: in the list that findBusinesses returns, a profile with a greater sum of stars
  over its repositories stands in front of every profile with a smaller sum, and the
  profiles with equal sums keep the order they have in front of the sort.
\<close>

theorem findBusinesses_ranking:
  assumes "fst (findBusinesses t c) = Inr businessList"
  shows "(\<forall>i j. i < length businessList \<and> j < length businessList
             \<and> sum_list (map br_stars (b_repositories (businessList ! j)))
                 < sum_list (map br_stars (b_repositories (businessList ! i)))
             \<longrightarrow> i < j)
       \<and> (\<forall>candidates s. fst (findBusinesses_filtered t c) = Inr candidates \<longrightarrow>
             filter (\<lambda>p. sum_list (map br_stars (b_repositories p)) = s) businessList
               = filter (\<lambda>p. sum_list (map br_stars (b_repositories p)) = s) candidates)"
proof (cases "fst (findBusinesses_filtered t c)")
  case (Inl e)
  then have "businessList = []"
    using assms by (auto simp: findBusinesses_def try_catch_def dest: log_and_return_Inr)
  then show ?thesis using Inl by simp
next
  case (Inr candidates)
  then have bl: "businessList = js_sort compare_businesses candidates"
    using assms by (simp add: findBusinesses_def try_catch_def)
  show ?thesis
    using js_sort_descending [of _ candidates] js_sort_stable [of _ candidates] Inr
    by (auto simp: bl score_sum_list)
qed

theorem findBusinesses_ranking_witness:
  "\<exists>businessList candidates.
      fst (findBusinesses stub_transport stub_criteria) = Inr businessList
    \<and> fst (findBusinesses_filtered stub_transport stub_criteria) = Inr candidates
    \<and> map b_username candidates = [''123'', ''big'', ''acme'', ''zeta'']
    \<and> map b_username businessList = [''acme'', ''big'', ''123'', ''zeta'']
    \<and> map (\<lambda>p. sum_list (map br_stars (b_repositories p))) businessList = [350, 300, 110, 110]
    \<and> sum_list (map br_stars (b_repositories (businessList ! 1)))
        < sum_list (map br_stars (b_repositories (businessList ! 0)))
    \<and> filter (\<lambda>p. sum_list (map br_stars (b_repositories p)) = 110) businessList
        = filter (\<lambda>p. sum_list (map br_stars (b_repositories p)) = 110) candidates"
proof -
  let ?stars = "\<lambda>p. sum_list (map br_stars (b_repositories p))"
  have e1: "(case fst (findBusinesses stub_transport stub_criteria) of
         Inr res \<Rightarrow> map b_username res = [''acme'', ''big'', ''123'', ''zeta'']
                    \<and> map (\<lambda>p. sum_list (map br_stars (b_repositories p))) res
                        = [350, 300, 110, 110]
       | Inl e \<Rightarrow> False)"
    by code_simp
  have e2: "(case fst (findBusinesses_filtered stub_transport stub_criteria) of
         Inr res \<Rightarrow> map b_username res = [''123'', ''big'', ''acme'', ''zeta'']
       | Inl e \<Rightarrow> False)"
    by code_simp
  obtain businessList where b: "fst (findBusinesses stub_transport stub_criteria) = Inr businessList"
    and b1: "map b_username businessList = [''acme'', ''big'', ''123'', ''zeta'']"
    and b2: "map ?stars businessList = [350, 300, 110, 110]"
    using e1 by (auto split: sum.splits)
  obtain candidates where c: "fst (findBusinesses_filtered stub_transport stub_criteria) = Inr candidates"
    and c1: "map b_username candidates = [''123'', ''big'', ''acme'', ''zeta'']"
    using e2 by (auto split: sum.splits)
  have len: "length businessList = 4"
    using arg_cong [OF b2, of length] by simp
  have "?stars (businessList ! 0) = map ?stars businessList ! 0"
    and "?stars (businessList ! 1) = map ?stars businessList ! 1"
    using len by simp_all
  then have lt: "?stars (businessList ! 1) < ?stars (businessList ! 0)"
    by (simp add: b2)
  have stable: "filter (\<lambda>p. ?stars p = 110) businessList = filter (\<lambda>p. ?stars p = 110) candidates"
    using findBusinesses_ranking [OF b] c by blast
  show ?thesis
    by (intro exI [of _ businessList] exI [of _ candidates] conjI) (fact b c c1 b1 b2 lt stable)+
qed

section \<open>Properties of findBusinesses: failed lookups\<close>

lemma snd_findBusinesses_search:
  "\<exists>so. snd (findBusinesses_search t c) = [SearchRepos so]"
  by (simp add: findBusinesses_search_def snd_searchRepositories Let_def)

lemma findBusinesses_completes:
  assumes "fst (findBusinesses_search t c) = Inr repositories"
    and "list_all (\<lambda>r. rs_owner r \<notin> set object_prototype_keys) repositories"
  shows "\<exists>businesses. fst (findBusinesses_businesses t c) = Inr businesses"
  using findBusinesses_loop_completes [OF assms(2)] assms(1)
  by (simp add: findBusinesses_businesses_def)

lemma findBusinesses_unknown_profile:
  assumes run: "findBusinesses_businesses t c = (Inr businesses, tr)"
    and i: "i < length tr" "tr ! i = GetByUsername owner"
      "users_getByUsername t (take i tr) owner = Inl e"
  shows "\<exists>b. map_of businesses owner = Some b \<and> b_username b = owner
            \<and> b_type b = ''unknown'' \<and> b_repositories b \<noteq> []
            \<and> (\<forall>repositories r. fst (findBusinesses_search t c) = Inr repositories
                   \<and> r \<in> set repositories \<and> rs_owner r = owner
                 \<longrightarrow> condensed r \<in> set (b_repositories b))
            \<and> (\<exists>businessList. fst (findBusinesses t c) = Inr businessList
                   \<and> owner \<notin> set (map b_username businessList))"
proof -
  obtain so where so: "snd (findBusinesses_search t c) = [SearchRepos so]"
    using snd_findBusinesses_search by blast
  obtain repositories where rs: "fst (findBusinesses_search t c) = Inr repositories"
    using run by (cases "fst (findBusinesses_search t c)") (auto simp: findBusinesses_businesses_def)
  have s: "findBusinesses_search t c = (Inr repositories, [SearchRepos so])"
    using so rs by (cases "findBusinesses_search t c") simp
  have loop: "findBusinesses_loop t repositories [] [SearchRepos so] = (Inr businesses, tr)"
    using run by (simp add: findBusinesses_businesses_def s)
  have "failed_lookups_unknown t [] [SearchRepos so]"
    by (auto simp: failed_lookups_unknown_def)
  then have "failed_lookups_unknown t businesses tr"
    using loop by (rule findBusinesses_loop_failed_lookups)
  then obtain b where b: "map_of businesses owner = Some b" "b_type b = ''unknown''"
      "b_public_repos b = None"
    using i unfolding failed_lookups_unknown_def by blast
  have "profiles_consistent []" by (simp add: profiles_consistent_def)
  then have cons: "profiles_consistent businesses"
    using loop findBusinesses_loop_consistent [of "[]" t repositories "[SearchRepos so]" businesses]
    by simp
  have mem: "(owner, b) \<in> set businesses" using b(1) by (rule map_of_SomeD)
  then have name: "b_username b = owner" and nonempty: "b_repositories b \<noteq> []"
    using cons by (auto simp: profiles_consistent_def list_all_iff)
  have collected: "condensed r \<in> set (b_repositories b)"
    if "r \<in> set repositories" "rs_owner r = owner" for r
    using findBusinesses_loop_collects [OF loop that(1)] that(2) b(1) by simp
  have rejected: "\<not> accepted b" using b by (simp add: accepted_def)
  let ?list = "js_sort compare_businesses (filter accepted (Object_values businesses))"
  have res: "fst (findBusinesses t c) = Inr ?list"
    using run by (simp add: findBusinesses_def findBusinesses_filtered_def try_catch_def)
  have "owner \<notin> set (map b_username ?list)"
  proof
    assume "owner \<in> set (map b_username ?list)"
    then obtain p where p: "p \<in> set ?list" "b_username p = owner" by auto
    then have acc: "accepted p" and "p \<in> snd ` set businesses"
      by (simp_all add: set_js_sort set_Object_values)
    then obtain k where k: "(k, p) \<in> set businesses" by auto
    then have "k = owner" using cons p(2) by (auto simp: profiles_consistent_def list_all_iff)
    then have "map_of businesses owner = Some p"
      using k cons by (simp add: profiles_consistent_def)
    then show False using b(1) acc rejected by simp
  qed
  then show ?thesis using b name nonempty collected res s by auto
qed

text \<open>
  C2 (amended): a failed lookup of an owner does not make the run fail: the loop over
  the search results ends without an exception unless an owner is named like a
  member of \<open>Object.prototype\<close>. The owner whose lookup failed has a profile of type
  \<open>unknown\<close> in the owner map, and the profile holds every repository of that owner
  among the search results. The final filter (type \<open>Organization\<close> or more than 5
  public repositories) rejects that profile, so the list that findBusinesses returns
  has no profile of that owner.
\<close>

theorem findBusinesses_failed_lookup:
  "(\<forall>repositories. fst (findBusinesses_search t c) = Inr repositories
        \<and> list_all (\<lambda>r. rs_owner r \<notin> set object_prototype_keys) repositories
      \<longrightarrow> (\<exists>businesses. fst (findBusinesses_businesses t c) = Inr businesses))
   \<and> (\<forall>businesses tr i owner e.
        findBusinesses_businesses t c = (Inr businesses, tr) \<and> i < length tr
        \<and> tr ! i = GetByUsername owner \<and> users_getByUsername t (take i tr) owner = Inl e
      \<longrightarrow> (\<exists>b. map_of businesses owner = Some b \<and> b_username b = owner
              \<and> b_type b = ''unknown'' \<and> b_repositories b \<noteq> []
              \<and> (\<forall>repositories r. fst (findBusinesses_search t c) = Inr repositories
                     \<and> r \<in> set repositories \<and> rs_owner r = owner
                   \<longrightarrow> condensed r \<in> set (b_repositories b))
              \<and> (\<exists>businessList. fst (findBusinesses t c) = Inr businessList
                     \<and> owner \<notin> set (map b_username businessList))))"
  using findBusinesses_completes [of t c] findBusinesses_unknown_profile [of t c]
  by blast

theorem findBusinesses_failed_lookup_witness:
  "\<exists>repositories businesses tr b businessList.
      fst (findBusinesses_search stub_transport stub_criteria) = Inr repositories
    \<and> list_all (\<lambda>r. rs_owner r \<notin> set object_prototype_keys) repositories
    \<and> findBusinesses_businesses stub_transport stub_criteria = (Inr businesses, tr)
    \<and> 1 < length tr \<and> tr ! 1 = GetByUsername ''ghost''
    \<and> users_getByUsername stub_transport (take 1 tr) ''ghost'' = Inl RequestError
    \<and> map_of businesses ''ghost'' = Some b \<and> b_username b = ''ghost''
    \<and> b_type b = ''unknown'' \<and> map br_name (b_repositories b) = [''g1'']
    \<and> fst (findBusinesses stub_transport stub_criteria) = Inr businessList
    \<and> ''ghost'' \<notin> set (map b_username businessList)"
proof -
  have e1: "(case fst (findBusinesses_search stub_transport stub_criteria) of
        Inr repositories \<Rightarrow>
          list_all (\<lambda>r. rs_owner r \<notin> set object_prototype_keys) repositories
      | Inl e \<Rightarrow> False)"
    by code_simp
  have e2: "(case findBusinesses_businesses stub_transport stub_criteria of
        (Inr businesses, tr) \<Rightarrow>
          1 < length tr \<and> tr ! 1 = GetByUsername ''ghost''
          \<and> users_getByUsername stub_transport (take 1 tr) ''ghost'' = Inl RequestError
          \<and> (case map_of businesses ''ghost'' of
                Some b \<Rightarrow> map br_name (b_repositories b) = [''g1'']
              | None \<Rightarrow> False)
      | (Inl e, tr) \<Rightarrow> False)"
    by code_simp
  obtain repositories where r: "fst (findBusinesses_search stub_transport stub_criteria) = Inr repositories"
    and r1: "list_all (\<lambda>r. rs_owner r \<notin> set object_prototype_keys) repositories"
    using e1 by (auto split: sum.splits)
  obtain result tr where run0: "findBusinesses_businesses stub_transport stub_criteria = (result, tr)"
    by (cases "findBusinesses_businesses stub_transport stub_criteria")
  obtain businesses where result: "result = Inr businesses"
    using e2 run0 by (cases result) simp_all
  have run: "findBusinesses_businesses stub_transport stub_criteria = (Inr businesses, tr)"
    using run0 result by simp
  have i: "1 < length tr" "tr ! 1 = GetByUsername ''ghost''"
      "users_getByUsername stub_transport (take 1 tr) ''ghost'' = Inl RequestError"
    using e2 run by simp_all
  obtain b0 where b0: "map_of businesses ''ghost'' = Some b0"
      "map br_name (b_repositories b0) = [''g1'']"
    using e2 run by (cases "map_of businesses ''ghost''") simp_all
  show ?thesis
    using findBusinesses_failed_lookup [of stub_transport stub_criteria] r r1 run i b0
    by (smt (verit, ccfv_threshold) option.inject)
qed

text \<open>
  C2 as it is worded fails: the search of the stub transport answers with the
  repository \<open>ghost/g1\<close>, the lookup of \<open>ghost\<close> fails, and the list that findBusinesses
  returns has no profile of \<open>ghost\<close>.
\<close>

theorem findBusinesses_failed_lookup_dropped:
  "fst (findBusinesses_search stub_transport stub_criteria) = Inr (map summary stub_search_results)
   \<and> summary (stub_repo ''ghost'' ''g1'' 500) \<in> set (map summary stub_search_results)
   \<and> users_getByUsername stub_transport
        (snd (findBusinesses_search stub_transport stub_criteria)) ''ghost'' = Inl RequestError
   \<and> GetByUsername ''ghost'' \<in> set (snd (findBusinesses stub_transport stub_criteria))
   \<and> (\<exists>businessList. fst (findBusinesses stub_transport stub_criteria) = Inr businessList
          \<and> map b_username businessList = [''acme'', ''big'', ''123'', ''zeta'']
          \<and> \<not> (\<exists>p \<in> set businessList. b_username p = ''ghost'' \<and> b_type p = ''unknown''))"
proof -
  have 1: "fst (findBusinesses_search stub_transport stub_criteria)
             = Inr (map summary stub_search_results)"
    by code_simp
  have 2: "summary (stub_repo ''ghost'' ''g1'' 500) \<in> set (map summary stub_search_results)"
    by (simp add: stub_search_results_def)
  have 3: "users_getByUsername stub_transport
             (snd (findBusinesses_search stub_transport stub_criteria)) ''ghost'' = Inl RequestError"
    by (simp add: stub_transport_def stub_getByUsername_def)
  have 4: "GetByUsername ''ghost'' \<in> set (snd (findBusinesses stub_transport stub_criteria))"
    by code_simp
  have e: "(case fst (findBusinesses stub_transport stub_criteria) of
              Inr businessList \<Rightarrow> map b_username businessList = [''acme'', ''big'', ''123'', ''zeta'']
            | Inl e \<Rightarrow> False)"
    by code_simp
  then obtain businessList where 5: "fst (findBusinesses stub_transport stub_criteria) = Inr businessList"
    and 6: "map b_username businessList = [''acme'', ''big'', ''123'', ''zeta'']"
    by (cases "fst (findBusinesses stub_transport stub_criteria)") simp_all
  have 7: "\<not> (\<exists>p \<in> set businessList. b_username p = ''ghost'' \<and> b_type p = ''unknown'')"
  proof
    assume "\<exists>p \<in> set businessList. b_username p = ''ghost'' \<and> b_type p = ''unknown''"
    then have "''ghost'' \<in> set (map b_username businessList)" by force
    then show False by (simp add: 6)
  qed
  show ?thesis
    by (intro conjI exI [of _ businessList]) (fact 1 2 3 4 5 6 7)+
qed

section \<open>Failures at the boundary\<close>

lemma findBusinesses_filtered_Inl:
  "fst (findBusinesses_filtered t c) = Inl e \<Longrightarrow> e = TypeError"
proof (cases "fst (findBusinesses_search t c)")
  case (Inl e')
  assume a: "fst (findBusinesses_filtered t c) = Inl e"
  have "e' = TypeError"
    using Inl searchRepositories_Inl by (simp add: findBusinesses_search_def Let_def)
  then show ?thesis
    using a Inl by (simp add: findBusinesses_filtered_def findBusinesses_businesses_def)
next
  case (Inr repos)
  assume a: "fst (findBusinesses_filtered t c) = Inl e"
  then have "fst (findBusinesses_loop t repos [] (snd (findBusinesses_search t c))) = Inl e"
    using Inr
    by (auto simp: findBusinesses_filtered_def findBusinesses_businesses_def split: sum.splits)
  then show ?thesis by (rule findBusinesses_loop_Inl)
qed

lemma findBusinesses_returns: "\<exists>businessList. fst (findBusinesses t c) = Inr businessList"
proof (cases "fst (findBusinesses_filtered t c)")
  case (Inl e)
  then have "e = TypeError" by (rule findBusinesses_filtered_Inl)
  then show ?thesis using Inl by (simp add: findBusinesses_def try_catch_def)
next
  case (Inr candidates)
  then show ?thesis by (simp add: findBusinesses_def try_catch_def)
qed

lemma searchRepositories_returns:
  assumes "\<forall>e. search_repos t tr (searchOptions_of query opts) = Inl e \<longrightarrow> \<not> nullish e"
  shows "\<exists>repos. fst (searchRepositories t tr query opts) = Inr repos"
  using assms
  by (cases "search_repos t tr (searchOptions_of query opts)")
     (simp_all add: searchRepositories_def try_catch_def Let_def)

lemma getTrendingRepos_body_Inl:
  "fst (getTrendingRepos_body rt t language since) = Inl e \<Longrightarrow> e = TypeError"
  using searchRepositories_Inl
  by (cases "sinceDate_of rt since") (auto simp: getTrendingRepos_body_def Let_def)

lemma getTrendingRepos_returns: "\<exists>repos. fst (getTrendingRepos rt t language since) = Inr repos"
proof (cases "fst (getTrendingRepos_body rt t language since)")
  case (Inl e)
  then have "e = TypeError" by (rule getTrendingRepos_body_Inl)
  then show ?thesis using Inl by (simp add: getTrendingRepos_def try_catch_def)
next
  case (Inr repos)
  then show ?thesis by (simp add: getTrendingRepos_def try_catch_def)
qed

lemma analyzeRepository_returns:
  assumes "\<forall>e. repos_get t [] owner repo = Inl e \<longrightarrow> \<not> nullish e"
  shows "\<exists>result. fst (analyzeRepository rt t owner repo) = Inr result"
proof (cases "repos_get t [] owner repo")
  case (Inl e)
  then show ?thesis
    using assms by (simp add: analyzeRepository_def analyzeRepository_body_def try_catch_def)
next
  case (Inr repoData)
  show ?thesis
  proof (cases "keywordMatches_of
                  (fst (analyzeRepository_readme rt t [ReposGet owner repo] owner repo))")
    case (Inl e)
    then have "e = TypeError"
      by (auto simp: keywordMatches_of_def split: jsval.splits)
    then show ?thesis
      using Inl Inr
      by (simp add: analyzeRepository_def analyzeRepository_body_def try_catch_def Let_def)
  next
    case (Inr matches)
    then show ?thesis
      using \<open>repos_get t [] owner repo = Inr repoData\<close>
      by (simp add: analyzeRepository_def analyzeRepository_body_def try_catch_def Let_def)
  qed
qed

lemma searchRepositories_failed_like_empty:
  "searchRepositories (t\<lparr>search_repos := \<lambda>tr so. Inl e\<rparr>) tr query opts
     = (log_and_return [] e, tr @ [SearchRepos (searchOptions_of query opts)])"
  "searchRepositories (t\<lparr>search_repos := \<lambda>tr so. Inr []\<rparr>) tr query opts
     = (Inr [], tr @ [SearchRepos (searchOptions_of query opts)])"
  by (simp_all add: searchRepositories_def try_catch_def Let_def)

lemma findBusinesses_failed_like_empty:
  "findBusinesses (t\<lparr>search_repos := \<lambda>tr so. Inl e\<rparr>) c
     = findBusinesses (t\<lparr>search_repos := \<lambda>tr so. Inr []\<rparr>) c"
  by (cases "nullish e")
     (simp_all add: findBusinesses_def findBusinesses_filtered_def findBusinesses_businesses_def
        findBusinesses_search_def searchRepositories_failed_like_empty Let_def try_catch_def
        Object_values_def js_sort_def)

lemma getTrendingRepos_failed_like_empty:
  "getTrendingRepos rt (t\<lparr>search_repos := \<lambda>tr so. Inl e\<rparr>) language since
     = getTrendingRepos rt (t\<lparr>search_repos := \<lambda>tr so. Inr []\<rparr>) language since"
  by (cases "sinceDate_of rt since"; cases "nullish e")
     (simp_all add: getTrendingRepos_def getTrendingRepos_body_def
        searchRepositories_failed_like_empty Let_def try_catch_def)

text \<open>
  C10 (amended): findBusinesses and getTrendingRepos never throw and always return a
  list, whatever the transport does. listRepoFiles and searchRepositories return a
  list, and fetchRepoFile and analyzeRepository return a value or \<open>null\<close>, and none of
  them throws, whenever the transport call that the method makes first does not
  reject with \<open>undefined\<close> or \<open>null\<close>, that is, whenever it rejects with an Error object
  as the Octokit client does. For such a rejection a failed call gives the same
  answer as a call without results, the empty list.
\<close>

theorem public_operations_total:
  "((\<forall>e. tree = Fails e \<longrightarrow> \<not> nullish e) \<longrightarrow>
      (\<exists>files. listRepoFiles rt tree owner repo path ref extensions = Inr files))
   \<and> ((\<forall>e. repos_getContent t tr owner repo filePath ref = Inl e \<longrightarrow> \<not> nullish e) \<longrightarrow>
      (\<exists>file. fst (fetchRepoFile rt t tr owner repo filePath ref) = Inr file))
   \<and> ((\<forall>e. search_repos t tr (searchOptions_of query opts) = Inl e \<longrightarrow> \<not> nullish e) \<longrightarrow>
      (\<exists>repos. fst (searchRepositories t tr query opts) = Inr repos))
   \<and> (\<exists>businessList. fst (findBusinesses t c) = Inr businessList)
   \<and> ((\<forall>e. repos_get t [] owner repo = Inl e \<longrightarrow> \<not> nullish e) \<longrightarrow>
      (\<exists>result. fst (analyzeRepository rt t owner repo) = Inr result))
   \<and> (\<exists>repos. fst (getTrendingRepos rt t language since) = Inr repos)
   \<and> (\<not> nullish e \<longrightarrow>
        listRepoFiles rt (Fails e) owner repo path ref extensions
          = listRepoFiles rt (Data_array []) owner repo path ref extensions)
   \<and> (\<not> nullish e \<longrightarrow>
        searchRepositories (t\<lparr>search_repos := \<lambda>tr so. Inl e\<rparr>) tr query opts
          = searchRepositories (t\<lparr>search_repos := \<lambda>tr so. Inr []\<rparr>) tr query opts)
   \<and> findBusinesses (t\<lparr>search_repos := \<lambda>tr so. Inl e\<rparr>) c
       = findBusinesses (t\<lparr>search_repos := \<lambda>tr so. Inr []\<rparr>) c
   \<and> getTrendingRepos rt (t\<lparr>search_repos := \<lambda>tr so. Inl e\<rparr>) language since
       = getTrendingRepos rt (t\<lparr>search_repos := \<lambda>tr so. Inr []\<rparr>) language since"
proof (intro conjI impI)
  assume "\<forall>e. tree = Fails e \<longrightarrow> \<not> nullish e"
  then show "\<exists>files. listRepoFiles rt tree owner repo path ref extensions = Inr files"
    using listRepoFiles_returns by blast
next
  assume "\<forall>e. repos_getContent t tr owner repo filePath ref = Inl e \<longrightarrow> \<not> nullish e"
  then show "\<exists>file. fst (fetchRepoFile rt t tr owner repo filePath ref) = Inr file"
    by (rule fetchRepoFile_returns)
next
  assume "\<forall>e. search_repos t tr (searchOptions_of query opts) = Inl e \<longrightarrow> \<not> nullish e"
  then show "\<exists>repos. fst (searchRepositories t tr query opts) = Inr repos"
    by (rule searchRepositories_returns)
next
  show "\<exists>businessList. fst (findBusinesses t c) = Inr businessList"
    by (rule findBusinesses_returns)
next
  assume "\<forall>e. repos_get t [] owner repo = Inl e \<longrightarrow> \<not> nullish e"
  then show "\<exists>result. fst (analyzeRepository rt t owner repo) = Inr result"
    by (rule analyzeRepository_returns)
next
  show "\<exists>repos. fst (getTrendingRepos rt t language since) = Inr repos"
    by (rule getTrendingRepos_returns)
next
  assume "\<not> nullish e"
  then show "listRepoFiles rt (Fails e) owner repo path ref extensions
          = listRepoFiles rt (Data_array []) owner repo path ref extensions"
    by (simp add: try_catch_def)
next
  assume "\<not> nullish e"
  then show "searchRepositories (t\<lparr>search_repos := \<lambda>tr so. Inl e\<rparr>) tr query opts
          = searchRepositories (t\<lparr>search_repos := \<lambda>tr so. Inr []\<rparr>) tr query opts"
    by (simp add: searchRepositories_failed_like_empty)
next
  show "findBusinesses (t\<lparr>search_repos := \<lambda>tr so. Inl e\<rparr>) c
       = findBusinesses (t\<lparr>search_repos := \<lambda>tr so. Inr []\<rparr>) c"
    by (rule findBusinesses_failed_like_empty)
next
  show "getTrendingRepos rt (t\<lparr>search_repos := \<lambda>tr so. Inl e\<rparr>) language since
       = getTrendingRepos rt (t\<lparr>search_repos := \<lambda>tr so. Inr []\<rparr>) language since"
    by (rule getTrendingRepos_failed_like_empty)
qed

theorem public_operations_total_witness:
  "\<not> nullish RequestError
   \<and> listRepoFiles stub_runtime (Fails RequestError) ''acme'' ''site'' [] ''main'' [] = Inr []
   \<and> listRepoFiles stub_runtime (Fails RequestError) ''acme'' ''site'' [] ''main'' []
       = listRepoFiles stub_runtime (Data_array []) ''acme'' ''site'' [] ''main'' []
   \<and> repos_getContent stub_transport [] ''acme'' ''site'' ''LICENSE'' ''main'' = Inl RequestError
   \<and> fst (fetchRepoFile stub_runtime stub_transport [] ''acme'' ''site'' ''LICENSE'' ''main'')
       = Inr None
   \<and> search_repos (stub_transport\<lparr>search_repos := \<lambda>tr so. Inl RequestError\<rparr>) []
        (searchOptions_of ''type:org''
           \<lparr>o_sort = Undefined, o_order = Undefined, o_per_page = Undefined, o_page = Undefined\<rparr>)
       = Inl RequestError
   \<and> fst (searchRepositories (stub_transport\<lparr>search_repos := \<lambda>tr so. Inl RequestError\<rparr>) []
        ''type:org''
        \<lparr>o_sort = Undefined, o_order = Undefined, o_per_page = Undefined, o_page = Undefined\<rparr>)
       = Inr []
   \<and> fst (findBusinesses (stub_transport\<lparr>search_repos := \<lambda>tr so. Inl RequestError\<rparr>)
        stub_criteria) = Inr []
   \<and> repos_get stub_transport [] ''nobody'' ''site'' = Inl RequestError
   \<and> fst (analyzeRepository stub_runtime stub_transport ''nobody'' ''site'') = Inr None
   \<and> fst (getTrendingRepos stub_runtime
        (stub_transport\<lparr>search_repos := \<lambda>tr so. Inl RequestError\<rparr>) [] ''daily'') = Inr []"
proof -
  let ?failing = "stub_transport\<lparr>search_repos := \<lambda>tr so. Inl RequestError\<rparr>"
  let ?opts = "\<lparr>o_sort = Undefined, o_order = Undefined, o_per_page = Undefined,
                o_page = Undefined\<rparr>"
  note total = public_operations_total
    [where rt = stub_runtime and tree = "Fails RequestError" and owner = "''nobody''"
       and repo = "''site''" and path = "[]" and ref = "''main''" and extensions = "[]"
       and t = stub_transport and tr = "[]" and filePath = "''LICENSE''"
       and query = "''type:org''" and opts = ?opts and c = stub_criteria
       and language = "[]" and since = "''daily''" and e = RequestError]
  have n: "\<not> nullish RequestError" by simp
  have g: "repos_getContent stub_transport [] ''acme'' ''site'' ''LICENSE'' ''main'' = Inl RequestError"
    by (simp add: stub_transport_def stub_getContent_def)
  have s: "search_repos ?failing [] (searchOptions_of ''type:org'' ?opts) = Inl RequestError"
    by simp
  have r: "repos_get stub_transport [] ''nobody'' ''site'' = Inl RequestError"
    by (simp add: stub_transport_def)
  have 1: "listRepoFiles stub_runtime (Fails RequestError) ''acme'' ''site'' [] ''main'' [] = Inr []"
    by (simp add: try_catch_def)
  have 2: "listRepoFiles stub_runtime (Fails RequestError) ''acme'' ''site'' [] ''main'' []
       = listRepoFiles stub_runtime (Data_array []) ''acme'' ''site'' [] ''main'' []"
    by (simp add: try_catch_def)
  have 3: "fst (fetchRepoFile stub_runtime stub_transport [] ''acme'' ''site'' ''LICENSE'' ''main'')
       = Inr None"
    using fetchRepoFile_rejected [OF g, of stub_runtime] by simp
  have 4: "fst (searchRepositories ?failing [] ''type:org'' ?opts) = Inr []"
    by (simp add: searchRepositories_def try_catch_def Let_def)
  have 5: "fst (findBusinesses ?failing stub_criteria) = Inr []"
    using total n
    by (simp add: findBusinesses_def findBusinesses_filtered_def findBusinesses_businesses_def
        findBusinesses_search_def searchRepositories_def Let_def try_catch_def Object_values_def
        js_sort_def)
  have 6: "fst (analyzeRepository stub_runtime stub_transport ''nobody'' ''site'') = Inr None"
    using total r
    by (simp add: analyzeRepository_def analyzeRepository_body_def try_catch_def)
  have 7: "fst (getTrendingRepos stub_runtime ?failing [] ''daily'') = Inr []"
    using total
    by (simp add: getTrendingRepos_def getTrendingRepos_body_def sinceDate_of_window
        object_prototype_keys_def searchRepositories_def Let_def try_catch_def)
  show ?thesis
    by (intro conjI) (fact n 1 2 g 3 s 4 5 r 6 7)+
qed

text \<open>
  C10 as it is worded fails: when the transport rejects with \<open>undefined\<close>, the read of
  \<open>error.message\<close> in the \<open>catch\<close> block throws a TypeError, and listRepoFiles,
  fetchRepoFile, searchRepositories and analyzeRepository end with that error. The
  failed call is then not the empty list of a call without results.
\<close>

theorem public_operations_reject_on_undefined:
  "listRepoFiles stub_runtime (Fails (Thrown Undefined)) ''acme'' ''site'' [] ''main'' []
     = Inl TypeError
   \<and> listRepoFiles stub_runtime (Data_array []) ''acme'' ''site'' [] ''main'' [] = Inr []
   \<and> fst (fetchRepoFile stub_runtime rejecting_transport [] ''acme'' ''site'' ''README.md'' ''main'')
       = Inl TypeError
   \<and> fst (searchRepositories rejecting_transport [] ''type:org''
        \<lparr>o_sort = Undefined, o_order = Undefined, o_per_page = Undefined, o_page = Undefined\<rparr>)
       = Inl TypeError
   \<and> fst (analyzeRepository stub_runtime rejecting_transport ''acme'' ''site'') = Inl TypeError"
  by (simp add: rejecting_transport_def try_catch_def fetchRepoFile_def searchRepositories_def
      analyzeRepository_def analyzeRepository_body_def Let_def)

end
